theory Spec2Isabelle
  imports Main "HOL-Library.Word"
begin

unbundle bit_operations_syntax

section \<open>Identifier and value types\<close>

text \<open>
  Status codes are the engine's 32-bit \<open>UA_StatusCode\<close>. The numeric values are the
  ones of the OPC UA status code table the engine's headers define; the wrapper
  itself only ever compares against \<open>UA_STATUSCODE_GOOD\<close>.
\<close>

type_synonym UA_StatusCode = "32 word"

definition UA_STATUSCODE_GOOD :: UA_StatusCode where
  "UA_STATUSCODE_GOOD = 0"

definition UA_STATUSCODE_BADINTERNALERROR :: UA_StatusCode where
  "UA_STATUSCODE_BADINTERNALERROR = 0x80020000"

definition UA_STATUSCODE_BADNODEIDUNKNOWN :: UA_StatusCode where
  "UA_STATUSCODE_BADNODEIDUNKNOWN = 0x80340000"

definition UA_STATUSCODE_BADATTRIBUTEIDINVALID :: UA_StatusCode where
  "UA_STATUSCODE_BADATTRIBUTEIDINVALID = 0x80350000"

definition UA_STATUSCODE_BADNOMATCH :: UA_StatusCode where
  "UA_STATUSCODE_BADNOMATCH = 0x806F0000"

text \<open>
  \<open>NodeId.h\<close>: a namespace index (\<open>UA_UInt16\<close>) and an identifier that is a tagged
  union of a 32-bit number, a string, a GUID and a byte string.
\<close>

datatype Identifier =
    UA_NODEIDTYPE_NUMERIC "32 word"
  | UA_NODEIDTYPE_STRING string
  | UA_NODEIDTYPE_GUID "128 word"
  | UA_NODEIDTYPE_BYTESTRING "8 word list"

datatype NodeId = NodeId (namespaceIndex: "16 word") (ident: Identifier)

text \<open>\<open>s.c_str()\<close>: the engine reads the characters up to the first NUL.\<close>

definition c_str :: "string \<Rightarrow> string" where
  "c_str s = takeWhile (\<lambda>c. c \<noteq> CHR 0x00) s"

text \<open>
  The specialised constructors: the index is cut to 16 bits (\<open>UA_UInt16(index)\<close>), and
  the string identifier is copied from \<open>id.c_str()\<close>.
\<close>

definition NodeId_numeric :: "32 word \<Rightarrow> 32 word \<Rightarrow> NodeId" where
  "NodeId_numeric index i = NodeId (ucast index) (UA_NODEIDTYPE_NUMERIC i)"

definition NodeId_string :: "32 word \<Rightarrow> string \<Rightarrow> NodeId" where
  "NodeId_string index i = NodeId (ucast index) (UA_NODEIDTYPE_STRING (c_str i))"

definition NodeId_guid :: "32 word \<Rightarrow> 128 word \<Rightarrow> NodeId" where
  "NodeId_guid index guid = NodeId (ucast index) (UA_NODEIDTYPE_GUID guid)"

text \<open>\<open>int nameSpaceIndex() const\<close>.\<close>

definition nameSpaceIndex :: "NodeId \<Rightarrow> int" where
  "nameSpaceIndex n = uint (namespaceIndex n)"

text \<open>
  \<open>isNull\<close> forwards to the engine's \<open>UA_NodeId_isNull\<close>: namespace 0 and a zero
  or empty identifier.
\<close>

definition isNull :: "NodeId \<Rightarrow> bool" where
  "isNull n =
     (namespaceIndex n = 0 \<and>
      (case ident n of
         UA_NODEIDTYPE_NUMERIC i \<Rightarrow> i = 0
       | UA_NODEIDTYPE_STRING s \<Rightarrow> s = []
       | UA_NODEIDTYPE_GUID g \<Rightarrow> g = 0
       | UA_NODEIDTYPE_BYTESTRING b \<Rightarrow> b = []))"

text \<open>\<open>notNull\<close>: clear, then force the numeric id 0 of namespace 1.\<close>

definition notNull :: "NodeId \<Rightarrow> NodeId" where
  "notNull n = NodeId 1 (UA_NODEIDTYPE_NUMERIC 0)"

text \<open>
  The stock node ids \<open>NodeId::Null\<close>, \<open>NodeId::Objects\<close>, \<open>NodeId::Organizes\<close> and
  \<open>NodeId::HasOrderedComponent\<close> are declared in \<open>NodeId.h\<close>; their values are the
  namespace-0 numbers of the engine's headers.
\<close>

definition Null :: NodeId where
  "Null = NodeId 0 (UA_NODEIDTYPE_NUMERIC 0)"

definition Objects :: NodeId where
  "Objects = NodeId 0 (UA_NODEIDTYPE_NUMERIC 85)"

definition Organizes :: NodeId where
  "Organizes = NodeId 0 (UA_NODEIDTYPE_NUMERIC 35)"

definition HasOrderedComponent :: NodeId where
  "HasOrderedComponent = NodeId 0 (UA_NODEIDTYPE_NUMERIC 49)"

record QualifiedName =
  qnNamespaceIndex :: "16 word"
  qnName :: string

text \<open>\<open>QualifiedName(int ns, const std::string &s)\<close>: the index is cut to 16 bits.\<close>

definition QualifiedName_new :: "int \<Rightarrow> string \<Rightarrow> QualifiedName" where
  "QualifiedName_new ns s = \<lparr>qnNamespaceIndex = word_of_int ns, qnName = s\<rparr>"

text \<open>
  Modelled from the spec: the class \<open>Variant\<close> is declared in \<open>open62541objects.h\<close>,
  which is not among the sources. The spec describes it as a tagged value container:
  a type tag (none for the null Variant), array-dimension metadata, and the payload.
  Two Variants are equal when tag, dimensions and payload bytes are.
\<close>

record Variant =
  typeTag :: "nat option"
  arrayDimensions :: "32 word list"
  payload :: "8 word list"

definition Variant_null :: Variant where
  "Variant_null = \<lparr>typeTag = None, arrayDimensions = [], payload = []\<rparr>"

text \<open>The attribute ids and data type indices the wrapper passes to the engine.\<close>

datatype UA_AttributeId =
    UA_ATTRIBUTEID_NODEID
  | UA_ATTRIBUTEID_NODECLASS
  | UA_ATTRIBUTEID_BROWSENAME
  | UA_ATTRIBUTEID_DISPLAYNAME
  | UA_ATTRIBUTEID_DESCRIPTION
  | UA_ATTRIBUTEID_WRITEMASK
  | UA_ATTRIBUTEID_ISABSTRACT
  | UA_ATTRIBUTEID_SYMMETRIC
  | UA_ATTRIBUTEID_INVERSENAME
  | UA_ATTRIBUTEID_CONTAINSNOLOOPS
  | UA_ATTRIBUTEID_EVENTNOTIFIER
  | UA_ATTRIBUTEID_VALUE
  | UA_ATTRIBUTEID_DATATYPE
  | UA_ATTRIBUTEID_VALUERANK
  | UA_ATTRIBUTEID_ARRAYDIMENSIONS
  | UA_ATTRIBUTEID_ACCESSLEVEL
  | UA_ATTRIBUTEID_MINIMUMSAMPLINGINTERVAL
  | UA_ATTRIBUTEID_HISTORIZING
  | UA_ATTRIBUTEID_EXECUTABLE

datatype UA_DataType =
    UA_TYPES_BOOLEAN
  | UA_TYPES_BYTE
  | UA_TYPES_INT32
  | UA_TYPES_UINT32
  | UA_TYPES_DOUBLE
  | UA_TYPES_NODEID
  | UA_TYPES_QUALIFIEDNAME
  | UA_TYPES_LOCALIZEDTEXT
  | UA_TYPES_VARIANT

section \<open>The server object\<close>

text \<open>
  Modelled from the spec: \<open>ReadWriteMutex\<close> and \<open>WriteLock\<close> are declared in
  \<open>open62541objects.h\<close>, which is not among the sources. The spec calls the mutex a
  single readers-writer lock on which a re-entrant acquisition deadlocks. Every use in
  \<open>open62541server.h\<close> is a scoped \<open>WriteLock\<close>, so the mutex is either free or held
  exclusively. Constructing a \<open>WriteLock\<close> on a held mutex never returns: the model
  gives \<open>None\<close>. Leaving the scope releases the mutex.
\<close>

datatype ReadWriteMutex = Unlocked | WriteLocked

text \<open>
  The members of \<open>class Server\<close> the operations below use: \<open>_server\<close> (the engine,
  \<open>None\<close> for \<open>nullptr\<close>), \<open>_lastError\<close> and \<open>_mutex\<close>. The engine's state is a
  type parameter: the engine is an external library.
\<close>

record 'e Server =
  server :: "'e option"
  lastError :: UA_StatusCode
  mutex :: ReadWriteMutex

definition lastOK :: "'e Server \<Rightarrow> bool" where
  "lastOK s = (lastError s = UA_STATUSCODE_GOOD)"

definition WriteLock :: "'e Server \<Rightarrow> 'e Server option" where
  "WriteLock s = (if mutex s = Unlocked then Some (s\<lparr>mutex := WriteLocked\<rparr>) else None)"

definition unlock :: "'e Server \<Rightarrow> 'e Server" where
  "unlock s = s\<lparr>mutex := Unlocked\<rparr>"

text \<open>
  The scope of a \<open>WriteLock l(_mutex)\<close>: acquire, run the rest of the block, release
  on the way out.
\<close>

definition with_WriteLock :: "'e Server \<Rightarrow> ('e Server \<Rightarrow> 'r \<times> 'e Server) \<Rightarrow> ('r \<times> 'e Server) option" where
  "with_WriteLock s body =
     (case WriteLock s of
        None \<Rightarrow> None
      | Some l \<Rightarrow> (case body l of (r, l') \<Rightarrow> Some (r, unlock l')))"

subsection \<open>Node context\<close>

text \<open>
  \<open>getNodeContext(NodeId& n, NodeContext*& c)\<close>. The engine function writes through
  the pointer it is given; the wrapper hands it the address of the local \<open>p\<close>. The
  result is the returned flag, the caller's \<open>c\<close> after the call, and the server.
\<close>

definition getNodeContext ::
  "('e \<Rightarrow> NodeId \<Rightarrow> 'c \<Rightarrow> UA_StatusCode \<times> 'c) \<Rightarrow> 'e Server \<Rightarrow> NodeId \<Rightarrow> 'c \<Rightarrow> bool \<times> 'c \<times> 'e Server" where
  "getNodeContext UA_Server_getNodeContext s n c =
     (case server s of
        None \<Rightarrow> (False, c, s)
      | Some e \<Rightarrow>
          (let p = c;
               (st, p') = UA_Server_getNodeContext e n p;
               s' = s\<lparr>lastError := st\<rparr>
           in (lastOK s', c, s')))"

definition setNodeContext ::
  "('e \<Rightarrow> NodeId \<Rightarrow> 'c \<Rightarrow> UA_StatusCode \<times> 'e) \<Rightarrow> 'e Server \<Rightarrow> NodeId \<Rightarrow> 'c \<Rightarrow> bool \<times> 'e Server" where
  "setNodeContext UA_Server_setNodeContext s n c =
     (case server s of
        None \<Rightarrow> (False, s)
      | Some e \<Rightarrow>
          (let (st, e') = UA_Server_setNodeContext e n c;
               s' = s\<lparr>server := Some e', lastError := st\<rparr>
           in (lastOK s', s')))"

subsection \<open>Attributes\<close>

text \<open>
  \<open>readAttribute(nodeId, attributeId, void* v)\<close>: the engine fills \<open>v\<close>; the model
  passes the old contents in and gets the new contents back.
\<close>

definition readAttribute ::
  "('e \<Rightarrow> NodeId \<Rightarrow> UA_AttributeId \<Rightarrow> 'a \<Rightarrow> UA_StatusCode \<times> 'a \<times> 'e) \<Rightarrow>
   'e Server \<Rightarrow> NodeId \<Rightarrow> UA_AttributeId \<Rightarrow> 'a \<Rightarrow> ((bool \<times> 'a) \<times> 'e Server) option" where
  "readAttribute UA_Server_read s nodeId attributeId v =
     (case server s of
        None \<Rightarrow> Some ((False, v), s)
      | Some e \<Rightarrow>
          with_WriteLock s (\<lambda>l.
            let (st, v', e') = UA_Server_read e nodeId attributeId v;
                l' = l\<lparr>server := Some e', lastError := st\<rparr>
            in ((lastOK l', v'), l')))"

text \<open>
  \<open>writeAttribute\<close>: what is stored in \<open>_lastError\<close> is the result of the comparison
  \<open>__UA_Server_write(...) == UA_STATUSCODE_GOOD\<close>, a \<open>bool\<close> converted to the
  status code 1 or 0.
\<close>

definition writeAttribute ::
  "('e \<Rightarrow> NodeId \<Rightarrow> UA_AttributeId \<Rightarrow> UA_DataType \<Rightarrow> 'a \<Rightarrow> UA_StatusCode \<times> 'e) \<Rightarrow>
   'e Server \<Rightarrow> NodeId \<Rightarrow> UA_AttributeId \<Rightarrow> UA_DataType \<Rightarrow> 'a \<Rightarrow> (bool \<times> 'e Server) option" where
  "writeAttribute UA_Server_write s nodeId attributeId attr_type attr =
     (case server s of
        None \<Rightarrow> Some (False, s)
      | Some e \<Rightarrow>
          with_WriteLock s (\<lambda>l.
            let (st, e') = UA_Server_write e nodeId attributeId attr_type attr;
                l' = l\<lparr>server := Some e',
                       lastError := (if st = UA_STATUSCODE_GOOD then 1 else 0)\<rparr>
            in (lastOK l', l')))"

text \<open>\<open>readValue\<close> is \<open>readAttribute\<close> at \<open>UA_ATTRIBUTEID_VALUE\<close>.\<close>

definition readValue ::
  "('e \<Rightarrow> NodeId \<Rightarrow> UA_AttributeId \<Rightarrow> Variant \<Rightarrow> UA_StatusCode \<times> Variant \<times> 'e) \<Rightarrow>
   'e Server \<Rightarrow> NodeId \<Rightarrow> Variant \<Rightarrow> ((bool \<times> Variant) \<times> 'e Server) option" where
  "readValue UA_Server_read s nodeId outValue =
     readAttribute UA_Server_read s nodeId UA_ATTRIBUTEID_VALUE outValue"

text \<open>\<open>writeValue\<close> calls the engine directly, with no lock, and keeps the status.\<close>

definition writeValue ::
  "('e \<Rightarrow> NodeId \<Rightarrow> UA_AttributeId \<Rightarrow> UA_DataType \<Rightarrow> Variant \<Rightarrow> UA_StatusCode \<times> 'e) \<Rightarrow>
   'e Server \<Rightarrow> NodeId \<Rightarrow> Variant \<Rightarrow> bool \<times> 'e Server" where
  "writeValue UA_Server_write s nodeId val =
     (case server s of
        None \<Rightarrow> (False, s)
      | Some e \<Rightarrow>
          (let (st, e') = UA_Server_write e nodeId UA_ATTRIBUTEID_VALUE UA_TYPES_VARIANT val;
               s' = s\<lparr>server := Some e', lastError := st\<rparr>
           in (UA_STATUSCODE_GOOD = lastError s', s')))"

subsection \<open>Deleting a node\<close>

definition deleteNode ::
  "('e \<Rightarrow> NodeId \<Rightarrow> bool \<Rightarrow> UA_StatusCode \<times> 'e) \<Rightarrow>
   'e Server \<Rightarrow> NodeId \<Rightarrow> bool \<Rightarrow> (bool \<times> 'e Server) option" where
  "deleteNode UA_Server_deleteNode s nodeId deleteReferences =
     (case server s of
        None \<Rightarrow> Some (False, s)
      | Some e \<Rightarrow>
          with_WriteLock s (\<lambda>l.
            let (st, e') = UA_Server_deleteNode e nodeId deleteReferences;
                l' = l\<lparr>server := Some e', lastError := st\<rparr>
            in (lastError l' \<noteq> UA_STATUSCODE_GOOD, l')))"

subsection \<open>Calling a method, translating a browse path, namespaces\<close>

record CallMethodRequest =
  objectId :: NodeId
  methodId :: NodeId
  inputArguments :: "Variant list"

record CallMethodResult =
  statusCode :: UA_StatusCode
  outputArguments :: "Variant list"

text \<open>
  \<open>call\<close>: the engine's \<open>UA_Server_call\<close> runs inside the scope of the lock. The
  engine dispatches to the method callback, which gets hold of the \<open>Server\<close> object
  again (\<open>findServer\<close>): the engine function of this operation therefore acts on the
  whole server object, the state of the mutex included. It runs user code, which may
  not return: then the engine function gives \<open>None\<close>, and so does \<open>call\<close>.
\<close>

definition call ::
  "('e Server \<Rightarrow> CallMethodRequest \<Rightarrow> (CallMethodResult \<times> 'e Server) option) \<Rightarrow>
   'e Server \<Rightarrow> CallMethodRequest \<Rightarrow> CallMethodResult \<Rightarrow>
   ((bool \<times> CallMethodResult) \<times> 'e Server) option" where
  "call UA_Server_call s request ret =
     (case server s of
        None \<Rightarrow> Some ((False, ret), s)
      | Some e \<Rightarrow>
          (case WriteLock s of
             None \<Rightarrow> None
           | Some l \<Rightarrow>
               (case UA_Server_call l request of
                  None \<Rightarrow> None
                | Some (r, l') \<Rightarrow>
                    Some ((statusCode r = UA_STATUSCODE_GOOD, r), unlock l'))))"

record RelativePathElement =
  referenceTypeId :: NodeId
  isInverse :: bool
  includeSubtypes :: bool
  targetName :: QualifiedName

record BrowsePath =
  startingNode :: NodeId
  relativePath :: "RelativePathElement list"

text \<open>The engine's answer to a browse path: a status and every target it found.\<close>

record BrowsePathResult =
  resultStatusCode :: UA_StatusCode
  targets :: "NodeId list"

definition translateBrowsePathToNodeIds ::
  "('e \<Rightarrow> BrowsePath \<Rightarrow> BrowsePathResult \<times> 'e) \<Rightarrow>
   'e Server \<Rightarrow> BrowsePath \<Rightarrow> BrowsePathResult \<Rightarrow>
   ((bool \<times> BrowsePathResult) \<times> 'e Server) option" where
  "translateBrowsePathToNodeIds UA_Server_translateBrowsePathToNodeIds s path result =
     (case server s of
        None \<Rightarrow> Some ((False, result), s)
      | Some e \<Rightarrow>
          with_WriteLock s (\<lambda>l.
            let (r, e') = UA_Server_translateBrowsePathToNodeIds e path;
                l' = l\<lparr>server := Some e'\<rparr>
            in ((resultStatusCode r = UA_STATUSCODE_GOOD, r), l')))"

definition addNamespace ::
  "('e \<Rightarrow> string \<Rightarrow> 16 word \<times> 'e) \<Rightarrow> 'e Server \<Rightarrow> string \<Rightarrow> (16 word \<times> 'e Server) option" where
  "addNamespace UA_Server_addNamespace s nm =
     (case server s of
        None \<Rightarrow> Some (0, s)
      | Some e \<Rightarrow>
          with_WriteLock s (\<lambda>l.
            let (ret, e') = UA_Server_addNamespace e (c_str nm)
            in (ret, l\<lparr>server := Some e'\<rparr>)))"

subsection \<open>Adding object and object type nodes\<close>

text \<open>
  The arguments handed to the engine's \<open>UA_Server_add...Node\<close>. \<open>outNewNodeId\<close> is
  the pointer argument: \<open>None\<close> for \<open>nullptr\<close>, which the wrapper passes when the
  caller's receiver is the null node id. The engine answers with the status and what
  it wrote through that pointer.
\<close>

record ('attr, 'ctx) AddNode =
  requestedNewNodeId :: NodeId
  parentNodeId :: NodeId
  addReferenceTypeId :: NodeId
  addBrowseName :: QualifiedName
  typeDefinition :: "NodeId option"
  attr :: 'attr
  nodeContext :: 'ctx
  outNewNodeId :: "NodeId option"

definition receive :: "NodeId \<Rightarrow> NodeId option \<Rightarrow> NodeId" where
  "receive outNode written =
     (if isNull outNode then outNode
      else (case written of None \<Rightarrow> outNode | Some n \<Rightarrow> n))"

definition addObjectNode ::
  "('e \<Rightarrow> ('attr, 'ctx) AddNode \<Rightarrow> UA_StatusCode \<times> NodeId option \<times> 'e) \<Rightarrow>
   'e Server \<Rightarrow> NodeId \<Rightarrow> NodeId \<Rightarrow> NodeId \<Rightarrow> QualifiedName \<Rightarrow> NodeId \<Rightarrow> 'attr \<Rightarrow>
   NodeId \<Rightarrow> 'ctx \<Rightarrow> ((bool \<times> NodeId) \<times> 'e Server) option" where
  "addObjectNode UA_Server_addObjectNode s reqId parent refType qn typeDef at outNode ctx =
     (case server s of
        None \<Rightarrow> Some ((False, outNode), s)
      | Some e \<Rightarrow>
          with_WriteLock s (\<lambda>l.
            let (st, written, e') = UA_Server_addObjectNode e
                  \<lparr>requestedNewNodeId = reqId, parentNodeId = parent,
                   addReferenceTypeId = refType, addBrowseName = qn,
                   typeDefinition = Some typeDef, attr = at, nodeContext = ctx,
                   outNewNodeId = (if isNull outNode then None else Some outNode)\<rparr>;
                l' = l\<lparr>server := Some e', lastError := st\<rparr>
            in ((lastOK l', receive outNode written), l')))"

text \<open>\<open>addObjectTypeNode\<close> has no \<open>WriteLock\<close>.\<close>

definition addObjectTypeNode ::
  "('e \<Rightarrow> ('attr, 'ctx) AddNode \<Rightarrow> UA_StatusCode \<times> NodeId option \<times> 'e) \<Rightarrow>
   'e Server \<Rightarrow> NodeId \<Rightarrow> NodeId \<Rightarrow> NodeId \<Rightarrow> QualifiedName \<Rightarrow> 'attr \<Rightarrow>
   NodeId \<Rightarrow> 'ctx \<Rightarrow> (bool \<times> NodeId) \<times> 'e Server" where
  "addObjectTypeNode UA_Server_addObjectTypeNode s reqId parent refType qn at outNode ctx =
     (case server s of
        None \<Rightarrow> ((False, outNode), s)
      | Some e \<Rightarrow>
          (let (st, written, e') = UA_Server_addObjectTypeNode e
                 \<lparr>requestedNewNodeId = reqId, parentNodeId = parent,
                  addReferenceTypeId = refType, addBrowseName = qn,
                  typeDefinition = None, attr = at, nodeContext = ctx,
                  outNewNodeId = (if isNull outNode then None else Some outNode)\<rparr>;
               s' = s\<lparr>server := Some e', lastError := st\<rparr>
           in ((lastOK s', receive outNode written), s')))"

subsection \<open>Browse name\<close>

datatype exception = runtime_error string | length_error

text \<open>
  \<open>browseName(nodeId, s, ns)\<close> throws on a null engine. Otherwise it fills \<open>s\<close> and
  \<open>ns\<close> when the engine's read is good, and returns \<open>lastOK()\<close>: \<open>_lastError\<close> is
  not assigned here, so the flag is the one of the operation before.
\<close>

definition browseName ::
  "('e \<Rightarrow> NodeId \<Rightarrow> UA_StatusCode \<times> QualifiedName) \<Rightarrow>
   'e Server \<Rightarrow> NodeId \<Rightarrow> string \<Rightarrow> int \<Rightarrow> exception + (bool \<times> string \<times> int)" where
  "browseName UA_Server_readBrowseName srv nodeId s ns =
     (case server srv of
        None \<Rightarrow> Inl (runtime_error ''Null server'')
      | Some e \<Rightarrow>
          (let (st, outBrowseName) = UA_Server_readBrowseName e nodeId
           in if st = UA_STATUSCODE_GOOD
              then Inr (lastOK srv, qnName outBrowseName, uint (qnNamespaceIndex outBrowseName))
              else Inr (lastOK srv, s, ns)))"

section \<open>Method dispatch\<close>

text \<open>
  An argument descriptor (the engine's \<open>UA_Argument\<close>): a name, a data type and an
  array rank. \<open>resize\<close> fills a vector with value-initialised descriptors.
\<close>

record Argument =
  argumentName :: string
  dataType :: NodeId
  valueRank :: int

definition Argument_default :: Argument where
  "Argument_default = \<lparr>argumentName = [], dataType = Null, valueRank = 0\<rparr>"

text \<open>
  \<open>class ServerMethod\<close>: the context name, the vectors \<open>_in\<close> and \<open>_out\<close>, and the
  virtual \<open>callback\<close> a derived class overrides (the user handler). The handler gets
  the server, the object id, the inputs and the output buffer, and gives back a
  status, the output buffer and the server as it left them, or \<open>None\<close> when it does
  not return.
\<close>

type_synonym 'e handler =
  "'e Server \<Rightarrow> NodeId \<Rightarrow> Variant list \<Rightarrow> Variant list \<Rightarrow>
   (UA_StatusCode \<times> Variant list \<times> 'e Server) option"

record 'e ServerMethod =
  contextName :: string
  inArgs :: "Argument list"
  outArgs :: "Argument list"
  callback :: "'e handler"

text \<open>
  Addition of two \<open>int\<close> values as the machine performs it: the sum is cut to 32 bits,
  two's complement, so that \<open>INT_MAX + 1\<close> comes out as \<open>INT_MIN\<close>.
\<close>

definition int_add :: "int \<Rightarrow> int \<Rightarrow> int" where
  "int_add a b = (a + b + 2 ^ 31) mod 2 ^ 32 - 2 ^ 31"

text \<open>
  The constructor: \<open>_in.resize(nInputs + 1); _out.resize(nOutputs + 1)\<close>. The sums are
  made in \<open>int\<close>. A negative size converts to a huge \<open>size_t\<close> and \<open>resize\<close> throws.
\<close>

definition ServerMethod_new ::
  "string \<Rightarrow> int \<Rightarrow> int \<Rightarrow> 'e handler \<Rightarrow> exception + 'e ServerMethod" where
  "ServerMethod_new n nInputs nOutputs handler =
     (if int_add nInputs 1 < 0 \<or> int_add nOutputs 1 < 0 then Inl length_error
      else Inr \<lparr>contextName = n,
                inArgs = replicate (nat (int_add nInputs 1)) Argument_default,
                outArgs = replicate (nat (int_add nOutputs 1)) Argument_default,
                callback = handler\<rparr>)"

text \<open>
  The sizes \<open>addServerMethod\<close> registers with the engine: \<open>method->in().size() - 1\<close>
  and \<open>method->out().size() - 1\<close>, in \<open>size_t\<close> arithmetic.
\<close>

definition inputArgumentsSize :: "'e ServerMethod \<Rightarrow> 64 word" where
  "inputArgumentsSize m = of_nat (length (inArgs m)) - 1"

definition outputArgumentsSize :: "'e ServerMethod \<Rightarrow> 64 word" where
  "outputArgumentsSize m = of_nat (length (outArgs m)) - 1"

record MethodAttributes =
  displayName :: string
  description :: string
  executable :: bool

record 'e AddMethodNode =
  methodRequestedNewNodeId :: NodeId
  methodParentNodeId :: NodeId
  methodReferenceTypeId :: NodeId
  methodBrowseName :: QualifiedName
  methodAttr :: MethodAttributes
  methodInputArgumentsSize :: "64 word"
  methodInputArguments :: "Argument list"
  methodOutputArgumentsSize :: "64 word"
  methodOutputArguments :: "Argument list"
  methodNodeContext :: "'e ServerMethod"
  methodOutNewNodeId :: "NodeId option"

definition addServerMethod ::
  "('e \<Rightarrow> 'e AddMethodNode \<Rightarrow> UA_StatusCode \<times> NodeId option \<times> 'e) \<Rightarrow>
   'e Server \<Rightarrow> 'e ServerMethod \<Rightarrow> string \<Rightarrow> NodeId \<Rightarrow> NodeId \<Rightarrow> NodeId \<Rightarrow> int \<Rightarrow>
   ((bool \<times> NodeId) \<times> 'e Server) option" where
  "addServerMethod UA_Server_addMethodNode s method bname parent nodeId newNode nsIndex =
     (case server s of
        None \<Rightarrow> Some ((False, newNode), s)
      | Some e \<Rightarrow>
          (let nsIndex' = (if nsIndex = 0 then nameSpaceIndex parent else nsIndex);
               at = \<lparr>displayName = bname, description = bname, executable = True\<rparr>;
               qn = QualifiedName_new nsIndex' bname
           in with_WriteLock s (\<lambda>l.
                let (st, written, e') = UA_Server_addMethodNode e
                      \<lparr>methodRequestedNewNodeId = nodeId, methodParentNodeId = parent,
                       methodReferenceTypeId = HasOrderedComponent, methodBrowseName = qn,
                       methodAttr = at,
                       methodInputArgumentsSize = inputArgumentsSize method,
                       methodInputArguments = inArgs method,
                       methodOutputArgumentsSize = outputArgumentsSize method,
                       methodOutputArguments = outArgs method,
                       methodNodeContext = method,
                       methodOutNewNodeId = (if isNull newNode then None else Some newNode)\<rparr>;
                    l' = l\<lparr>server := Some e', lastError := st\<rparr>
                in ((lastOK l', receive newNode written), l'))))"

text \<open>
  \<open>ServerMethod::methodCallback\<close>, the function the engine calls for a method node.
  \<open>found\<close> is the result of \<open>Server::findServer(server)\<close>. The sizes of \<open>input\<close> and
  \<open>output\<close> are the lengths of the lists. Nothing is compared with the sizes of
  \<open>_in\<close> and \<open>_out\<close>.
\<close>

definition methodCallback ::
  "'e Server option \<Rightarrow> 'e ServerMethod option \<Rightarrow> NodeId \<Rightarrow> Variant list \<Rightarrow> Variant list \<Rightarrow>
   (UA_StatusCode \<times> Variant list \<times> 'e Server option) option" where
  "methodCallback found methodContext objId input output =
     (case methodContext of
        None \<Rightarrow> Some (UA_STATUSCODE_GOOD, output, found)
      | Some p \<Rightarrow>
          (case found of
             None \<Rightarrow> Some (UA_STATUSCODE_GOOD, output, None)
           | Some s \<Rightarrow>
               (case callback p s objId input output of
                  None \<Rightarrow> None
                | Some (ret, output', s') \<Rightarrow> Some (ret, output', Some s'))))"

subsection \<open>The engine's side of a call\<close>

text \<open>
  Modelled from the spec: the status \<open>ArgumentCountMismatch\<close> of the error taxonomy
  (section 7). The sources name no such status; it is given the value of the engine's
  \<open>BadArgumentsMissing\<close>.
\<close>

definition ArgumentCountMismatch :: UA_StatusCode where
  "ArgumentCountMismatch = 0x80760000"

text \<open>
  Modelled from the spec: the engine's \<open>UA_Server_call\<close>, which is not part of the
  sources, as sections 4.2 and 4.5 describe a call. \<open>methodContext\<close> is the node
  context the method node was added with, and the arities are the sizes
  \<open>addServerMethod\<close> registered for it. The number of inputs is compared with the
  registered input arity; on a mismatch the call fails with \<open>ArgumentCountMismatch\<close>
  and the method callback is not run. Otherwise the callback runs synchronously on the
  server the call is made for, with an output buffer of the registered size; the call
  does not return when the callback does not. When the callback comes back with a
  number of outputs other than the registered output arity the call fails with
  \<open>ArgumentCountMismatch\<close>, otherwise it reports the callback's status and outputs. A
  node without a context has no arities to compare with.
\<close>

definition dispatch_call ::
  "'e ServerMethod option \<Rightarrow> 'e Server \<Rightarrow> CallMethodRequest \<Rightarrow>
   (CallMethodResult \<times> 'e Server) option" where
  "dispatch_call methodContext s request =
     (let mismatch = \<lparr>statusCode = ArgumentCountMismatch, outputArguments = []\<rparr>;
          nIn = (case methodContext of
                   None \<Rightarrow> length (inputArguments request)
                 | Some m \<Rightarrow> unat (inputArgumentsSize m));
          buffer = (case methodContext of
                      None \<Rightarrow> []
                    | Some m \<Rightarrow> replicate (unat (outputArgumentsSize m)) Variant_null)
      in if length (inputArguments request) \<noteq> nIn then Some (mismatch, s)
         else
           case methodCallback (Some s) methodContext (objectId request) (inputArguments request)
                  buffer of
             None \<Rightarrow> None
           | Some (ret, output, found) \<Rightarrow>
               Some (if length output \<noteq> length buffer then mismatch
                     else \<lparr>statusCode = ret, outputArguments = output\<rparr>,
                     (case found of None \<Rightarrow> s | Some s' \<Rightarrow> s')))"

section \<open>Access control defaults\<close>

text \<open>
  The virtual access-control hooks of \<open>class Server\<close> as they stand when no derived
  class overrides them. Every argument is ignored.
\<close>

definition allowAddNode :: "'ac \<Rightarrow> NodeId option \<Rightarrow> 'sc \<Rightarrow> 'item \<Rightarrow> bool" where
  "allowAddNode ac sessionId sessionContext item = True"

definition allowAddReference :: "'ac \<Rightarrow> NodeId option \<Rightarrow> 'sc \<Rightarrow> 'item \<Rightarrow> bool" where
  "allowAddReference ac sessionId sessionContext item = True"

definition allowDeleteNode :: "'ac \<Rightarrow> NodeId option \<Rightarrow> 'sc \<Rightarrow> 'item \<Rightarrow> bool" where
  "allowDeleteNode ac sessionId sessionContext item = False"

definition allowDeleteReference :: "'ac \<Rightarrow> NodeId option \<Rightarrow> 'sc \<Rightarrow> 'item \<Rightarrow> bool" where
  "allowDeleteReference ac sessionId sessionContext item = True"

definition getUserRightsMask :: "'ac \<Rightarrow> NodeId option \<Rightarrow> 'sc \<Rightarrow> NodeId option \<Rightarrow> 'nc \<Rightarrow> 32 word" where
  "getUserRightsMask ac sessionId sessionContext nodeId nodeCtx = 0"

definition getUserAccessLevel :: "'ac \<Rightarrow> NodeId option \<Rightarrow> 'sc \<Rightarrow> NodeId option \<Rightarrow> 'nc \<Rightarrow> 8 word" where
  "getUserAccessLevel ac sessionId sessionContext nodeId nodeCtx = 0"

definition getUserExecutable :: "'ac \<Rightarrow> NodeId option \<Rightarrow> 'sc \<Rightarrow> NodeId option \<Rightarrow> 'mc \<Rightarrow> bool" where
  "getUserExecutable ac sessionId sessionContext mId methodCtx = False"

text \<open>
  The access level bits of the engine's headers that \<open>writeEnable\<close> and
  \<open>setReadOnly\<close> use: bit 0 is read, bit 1 is write.
\<close>

definition UA_ACCESSLEVELMASK_READ :: "8 word" where
  "UA_ACCESSLEVELMASK_READ = 1"

definition UA_ACCESSLEVELMASK_WRITE :: "8 word" where
  "UA_ACCESSLEVELMASK_WRITE = 2"

section \<open>The node store\<close>

text \<open>
  Modelled from the spec: the address space itself (nodes, references, attribute
  reads and writes, deletion, folder creation) is kept by the external protocol engine
  behind \<open>UA_Server*\<close>, and \<open>Server::getChild\<close>, \<open>Server::addFolder\<close> and
  \<open>Server::createFolderPath\<close> are only declared in \<open>open62541server.h\<close>; their
  bodies are not among the sources. The definitions of this section follow the spec's
  data model (sections 3, 4.2 and 4.3): a node has a class, a browse name, a value and
  directed references; node ids are unique keys of the store. The store serves as the
  engine wherever an operation of the server object is run on concrete data.
\<close>

datatype NodeClass =
  Object | Variable | Method | ObjectType | VariableType | ReferenceType | DataType | View

record Reference =
  refType :: NodeId
  isForward :: bool
  target :: NodeId

record Node =
  nodeClass :: NodeClass
  nodeBrowseName :: QualifiedName
  nodeValue :: Variant
  references :: "Reference list"

type_synonym NodeStore = "(NodeId \<times> Node) list"

datatype StoreError = NodeNotFound | ParentNotFound | IdentifierCollision | AttributeNotApplicable

definition modify :: "NodeId \<Rightarrow> (Node \<Rightarrow> Node) \<Rightarrow> NodeStore \<Rightarrow> NodeStore" where
  "modify n f st = map (\<lambda>(k, nd). if k = n then (k, f nd) else (k, nd)) st"

text \<open>
  Modelled from the spec: the engine's attribute read and write (\<open>__UA_Server_read\<close>,
  \<open>__UA_Server_write\<close>, \<open>UA_Server_readBrowseName\<close>) are not in the repository.
  Reading and writing the Value attribute: \<open>NodeNotFound\<close> (the engine's
  \<open>BadNodeIdUnknown\<close>) for an absent id, \<open>AttributeNotApplicable\<close> (the engine's
  \<open>BadAttributeIdInvalid\<close>) when the node's class has no value.
\<close>

definition store_read ::
  "NodeStore \<Rightarrow> NodeId \<Rightarrow> UA_AttributeId \<Rightarrow> Variant \<Rightarrow> UA_StatusCode \<times> Variant \<times> NodeStore" where
  "store_read st n a v =
     (case map_of st n of
        None \<Rightarrow> (UA_STATUSCODE_BADNODEIDUNKNOWN, v, st)
      | Some nd \<Rightarrow>
          if a = UA_ATTRIBUTEID_VALUE \<and> nodeClass nd = Variable
          then (UA_STATUSCODE_GOOD, nodeValue nd, st)
          else (UA_STATUSCODE_BADATTRIBUTEIDINVALID, v, st))"

definition store_write ::
  "NodeStore \<Rightarrow> NodeId \<Rightarrow> UA_AttributeId \<Rightarrow> UA_DataType \<Rightarrow> Variant \<Rightarrow> UA_StatusCode \<times> NodeStore" where
  "store_write st n a t v =
     (case map_of st n of
        None \<Rightarrow> (UA_STATUSCODE_BADNODEIDUNKNOWN, st)
      | Some nd \<Rightarrow>
          if a = UA_ATTRIBUTEID_VALUE \<and> nodeClass nd = Variable
          then (UA_STATUSCODE_GOOD, modify n (\<lambda>x. x\<lparr>nodeValue := v\<rparr>) st)
          else (UA_STATUSCODE_BADATTRIBUTEIDINVALID, st))"

definition store_readBrowseName :: "NodeStore \<Rightarrow> NodeId \<Rightarrow> UA_StatusCode \<times> QualifiedName" where
  "store_readBrowseName st n =
     (case map_of st n of
        None \<Rightarrow> (UA_STATUSCODE_BADNODEIDUNKNOWN, QualifiedName_new 0 [])
      | Some nd \<Rightarrow> (UA_STATUSCODE_GOOD, nodeBrowseName nd))"

text \<open>
  Modelled from the spec: the engine's \<open>UA_Server_deleteNode\<close> is not in the
  repository. Deleting a node: \<open>NodeNotFound\<close> for an absent id; otherwise the node goes, and with
  \<open>deleteReferences\<close> every reference that names it as target goes too.
\<close>

definition store_deleteNode :: "NodeStore \<Rightarrow> NodeId \<Rightarrow> bool \<Rightarrow> UA_StatusCode \<times> NodeStore" where
  "store_deleteNode st n deleteReferences =
     (case map_of st n of
        None \<Rightarrow> (UA_STATUSCODE_BADNODEIDUNKNOWN, st)
      | Some nd \<Rightarrow>
          (let st' = filter (\<lambda>(k, x). k \<noteq> n) st
           in (UA_STATUSCODE_GOOD,
               if deleteReferences
               then map (\<lambda>(k, x). (k, x\<lparr>references := filter (\<lambda>r. target r \<noteq> n) (references x)\<rparr>)) st'
               else st')))"

text \<open>
  Modelled from the spec: the body of \<open>Server::getChild(start, childName, ret)\<close> is
  not among the sources. The children of a node are the targets of its forward references, in the order the
  references were added; \<open>getChild\<close> resolves the first child that exists in the store
  under the given browse name.
\<close>

definition children :: "NodeStore \<Rightarrow> NodeId \<Rightarrow> NodeId list" where
  "children st p =
     (case map_of st p of
        None \<Rightarrow> []
      | Some nd \<Rightarrow> map target (filter isForward (references nd)))"

definition hasBrowseName :: "NodeStore \<Rightarrow> string \<Rightarrow> NodeId \<Rightarrow> bool" where
  "hasBrowseName st nm t =
     (case map_of st t of
        None \<Rightarrow> False
      | Some nd \<Rightarrow> qnName (nodeBrowseName nd) = nm)"

definition getChild :: "NodeStore \<Rightarrow> NodeId \<Rightarrow> string \<Rightarrow> NodeId option" where
  "getChild st start childName = find (hasBrowseName st childName) (children st start)"

text \<open>
  Modelled from the spec: the engine's assignment of a node id to a new node is not in
  the repository; the spec asks for an id not previously present in the store.
  Every node id the store mentions: the keys and the targets of all references. An
  automatically assigned id is the numeric id after the largest one mentioned; it is
  refused as a collision should the 32-bit number have wrapped onto a mentioned id.
\<close>

definition mentioned :: "NodeStore \<Rightarrow> NodeId list" where
  "mentioned st = map fst st @ concat (map (\<lambda>(k, nd). map target (references nd)) st)"

definition numericOf :: "NodeId \<Rightarrow> nat" where
  "numericOf n = (case ident n of UA_NODEIDTYPE_NUMERIC i \<Rightarrow> unat i | _ \<Rightarrow> 0)"

definition freshId :: "NodeStore \<Rightarrow> 16 word \<Rightarrow> NodeId" where
  "freshId st ns =
     NodeId ns (UA_NODEIDTYPE_NUMERIC (of_nat (Suc (fold max (map numericOf (mentioned st)) 0))))"

definition folderNode :: "QualifiedName \<Rightarrow> Node" where
  "folderNode qn =
     \<lparr>nodeClass = Object, nodeBrowseName = qn, nodeValue = Variant_null, references = []\<rparr>"

text \<open>
  Modelled from the spec: the body of \<open>Server::addFolder\<close> is not among the sources.
  \<open>addFolder(parent, childName, nodeId, newNode, nameSpaceIndex)\<close>: the parent must
  exist (\<open>ParentNotFound\<close>); a requested id with the numeric identifier 0 asks for
  automatic assignment, any other requested id must be new to the store
  (\<open>IdentifierCollision\<close>); the name space of the browse name is \<open>nameSpaceIndex\<close> if
  non-zero, otherwise the parent's. On success the folder node is inserted with an
  \<open>Organizes\<close> reference from the parent, and its id is returned.
\<close>

definition store_addFolder ::
  "NodeStore \<Rightarrow> NodeId \<Rightarrow> string \<Rightarrow> NodeId \<Rightarrow> int \<Rightarrow> StoreError + (NodeId \<times> NodeStore)" where
  "store_addFolder st parent childName nodeId nsIndex =
     (case map_of st parent of
        None \<Rightarrow> Inl ParentNotFound
      | Some pn \<Rightarrow>
          (let nsIndex' = (if nsIndex = 0 then nameSpaceIndex parent else nsIndex);
               new = (if ident nodeId = UA_NODEIDTYPE_NUMERIC 0
                      then freshId st (namespaceIndex nodeId) else nodeId)
           in if new \<in> set (mentioned st) then Inl IdentifierCollision
              else Inr (new,
                        modify parent
                          (\<lambda>x. x\<lparr>references := references x @
                                  [\<lparr>refType = Organizes, isForward = True, target = new\<rparr>]\<rparr>) st
                        @ [(new, folderNode (QualifiedName_new nsIndex' childName))])))"

text \<open>
  Modelled from the spec: the body of \<open>Server::createFolderPath\<close> is not among the
  sources. \<open>createFolderPath(start, path, nameSpaceIndex, nodeId)\<close>, the path given as its
  list of segments (\<open>Path\<close>): for each segment resolve the existing child of that
  browse name under the current node, or create a folder there when there is none
  (with an automatically assigned id, as \<open>ServerNodeTree::addFolderNode\<close> asks for);
  the result is the leaf, or the error of the creation that failed, and the store.
\<close>

fun createFolderPath ::
  "NodeStore \<Rightarrow> NodeId \<Rightarrow> string list \<Rightarrow> int \<Rightarrow> (StoreError + NodeId) \<times> NodeStore" where
  "createFolderPath st cur [] nsIndex = (Inr cur, st)"
| "createFolderPath st cur (seg # rest) nsIndex =
     (case getChild st cur seg of
        Some c \<Rightarrow> createFolderPath st c rest nsIndex
      | None \<Rightarrow>
          (case store_addFolder st cur seg (NodeId (word_of_int nsIndex) (UA_NODEIDTYPE_NUMERIC 0)) nsIndex of
             Inl err \<Rightarrow> (Inl err, st)
           | Inr (new, st') \<Rightarrow> createFolderPath st' new rest nsIndex))"

text \<open>How many nodes of the store carry a given browse name.\<close>

definition countNamed :: "NodeStore \<Rightarrow> string \<Rightarrow> nat" where
  "countNamed st nm = length (filter (\<lambda>(k, nd). qnName (nodeBrowseName nd) = nm) st)"

section \<open>Concrete data\<close>

text \<open>
  The scenario of the spec's section 8, used to run the operations: the folder
  \<open>Items\<close> under \<open>Objects\<close> and the variable \<open>Count\<close> with the value 1 under
  \<open>Items\<close>, both in namespace 1; and a store that holds \<open>Objects\<close> only.
\<close>

definition serverOf :: "'e \<Rightarrow> 'e Server" where
  "serverOf e = \<lparr>server = Some e, lastError = UA_STATUSCODE_GOOD, mutex = Unlocked\<rparr>"

definition nullServer :: "'e Server" where
  "nullServer = \<lparr>server = None, lastError = UA_STATUSCODE_GOOD, mutex = Unlocked\<rparr>"

definition itemsId :: NodeId where
  "itemsId = NodeId_string 1 ''Items''"

definition countId :: NodeId where
  "countId = NodeId_string 1 ''Count''"

definition variantInt32 :: "8 word list \<Rightarrow> Variant" where
  "variantInt32 bytes = \<lparr>typeTag = Some 5, arrayDimensions = [], payload = bytes\<rparr>"

definition store0 :: NodeStore where
  "store0 = [(Objects, folderNode (QualifiedName_new 0 ''Objects''))]"

definition store1 :: NodeStore where
  "store1 =
     [(Objects, (folderNode (QualifiedName_new 0 ''Objects''))
         \<lparr>references := [\<lparr>refType = Organizes, isForward = True, target = itemsId\<rparr>]\<rparr>),
      (itemsId, (folderNode (QualifiedName_new 1 ''Items''))
         \<lparr>references := [\<lparr>refType = Organizes, isForward = True, target = countId\<rparr>]\<rparr>),
      (countId, \<lparr>nodeClass = Variable, nodeBrowseName = QualifiedName_new 1 ''Count'',
                 nodeValue = variantInt32 [1, 0, 0, 0], references = []\<rparr>)]"

text \<open>The store after \<open>createFolderPath(Objects, A/B/C, 1)\<close> on \<open>store0\<close>.\<close>

definition abcStore :: NodeStore where
  "abcStore =
     [(Objects, (folderNode (QualifiedName_new 0 ''Objects''))
         \<lparr>references := [\<lparr>refType = Organizes, isForward = True, target = NodeId_numeric 1 86\<rparr>]\<rparr>),
      (NodeId_numeric 1 86, (folderNode (QualifiedName_new 1 ''A''))
         \<lparr>references := [\<lparr>refType = Organizes, isForward = True, target = NodeId_numeric 1 87\<rparr>]\<rparr>),
      (NodeId_numeric 1 87, (folderNode (QualifiedName_new 1 ''B''))
         \<lparr>references := [\<lparr>refType = Organizes, isForward = True, target = NodeId_numeric 1 88\<rparr>]\<rparr>),
      (NodeId_numeric 1 88, folderNode (QualifiedName_new 1 ''C''))]"

text \<open>
  Answers of the engine to a browse path. A \<open>BrowsePathResult\<close> lists every target
  the path leads to: for a path whose last segment names two siblings \<open>Dup\<close> the
  engine's answer is good and holds both. \<open>dupStore\<close> is a store with two such
  siblings under \<open>Objects\<close>.
\<close>

definition dupA :: NodeId where
  "dupA = NodeId_numeric 1 1001"

definition dupB :: NodeId where
  "dupB = NodeId_numeric 1 1002"

definition dupStore :: NodeStore where
  "dupStore =
     [(Objects, (folderNode (QualifiedName_new 0 ''Objects''))
         \<lparr>references := [\<lparr>refType = Organizes, isForward = True, target = dupA\<rparr>,
                         \<lparr>refType = Organizes, isForward = True, target = dupB\<rparr>]\<rparr>),
      (dupA, folderNode (QualifiedName_new 1 ''Dup'')),
      (dupB, folderNode (QualifiedName_new 1 ''Dup''))]"

definition ambiguousAnswer :: BrowsePathResult where
  "ambiguousAnswer = \<lparr>resultStatusCode = UA_STATUSCODE_GOOD, targets = [dupA, dupB]\<rparr>"

definition uniqueAnswer :: BrowsePathResult where
  "uniqueAnswer = \<lparr>resultStatusCode = UA_STATUSCODE_GOOD, targets = [itemsId]\<rparr>"

definition noMatchAnswer :: BrowsePathResult where
  "noMatchAnswer = \<lparr>resultStatusCode = UA_STATUSCODE_BADNOMATCH, targets = []\<rparr>"

definition emptyBrowsePathResult :: BrowsePathResult where
  "emptyBrowsePathResult = \<lparr>resultStatusCode = UA_STATUSCODE_GOOD, targets = []\<rparr>"

definition pathTo :: "string \<Rightarrow> BrowsePath" where
  "pathTo nm =
     \<lparr>startingNode = Objects,
      relativePath = [\<lparr>referenceTypeId = Organizes, isInverse = False, includeSubtypes = True,
                       targetName = QualifiedName_new 1 nm\<rparr>]\<rparr>"

text \<open>
  Handlers. \<open>countingHandler\<close> answers with the number of inputs it was given;
  \<open>chattyHandler\<close> answers with that number twice, two outputs;
  \<open>stuckHandler\<close> never returns; \<open>probeHandler\<close> reports
  \<open>BadInternalError\<close> when it finds the server's mutex held and good otherwise;
  \<open>reentrantHandler\<close> calls back into the store: it reads the value of \<open>Count\<close>
  with \<open>readValue\<close> and answers with it.
\<close>

definition countingHandler :: "'e handler" where
  "countingHandler s obj input output =
     Some (UA_STATUSCODE_GOOD, [variantInt32 [of_nat (length input), 0, 0, 0]], s)"

definition chattyHandler :: "'e handler" where
  "chattyHandler s obj input output =
     Some (UA_STATUSCODE_GOOD,
           [variantInt32 [of_nat (length input), 0, 0, 0],
            variantInt32 [of_nat (length input), 0, 0, 0]], s)"

definition stuckHandler :: "'e handler" where
  "stuckHandler s obj input output = None"

definition probeHandler :: "'e handler" where
  "probeHandler s obj input output =
     Some (if mutex s = WriteLocked then UA_STATUSCODE_BADINTERNALERROR else UA_STATUSCODE_GOOD,
           output, s)"

definition reentrantHandler :: "NodeStore handler" where
  "reentrantHandler s obj input output =
     (case readValue store_read s countId Variant_null of
        None \<Rightarrow> None
      | Some ((ok, v), s') \<Rightarrow>
          Some (if ok then UA_STATUSCODE_GOOD else UA_STATUSCODE_BADINTERNALERROR, [v], s'))"

text \<open>
  The method objects \<open>ServerMethod("TestMethod", 2, 1)\<close>, \<open>ServerMethod("Probe", 0, 0)\<close>
  and \<open>ServerMethod("ReadCount", 0, 1)\<close>.
\<close>

definition testMethod :: "'e handler \<Rightarrow> 'e ServerMethod" where
  "testMethod handler =
     \<lparr>contextName = ''TestMethod'',
      inArgs = [Argument_default, Argument_default, Argument_default],
      outArgs = [Argument_default, Argument_default],
      callback = handler\<rparr>"

definition probeMethod :: "'e ServerMethod" where
  "probeMethod =
     \<lparr>contextName = ''Probe'', inArgs = [Argument_default], outArgs = [Argument_default],
      callback = probeHandler\<rparr>"

definition reentrantMethod :: "NodeStore ServerMethod" where
  "reentrantMethod =
     \<lparr>contextName = ''ReadCount'', inArgs = [Argument_default],
      outArgs = [Argument_default, Argument_default], callback = reentrantHandler\<rparr>"

text \<open>An engine that does nothing but keep the arities each method node is added with.\<close>

type_synonym ArityLog = "(64 word \<times> 64 word) list"

definition recordArity ::
  "ArityLog \<Rightarrow> ArityLog AddMethodNode \<Rightarrow> UA_StatusCode \<times> NodeId option \<times> ArityLog" where
  "recordArity e a =
     (UA_STATUSCODE_GOOD, None, (methodInputArgumentsSize a, methodOutputArgumentsSize a) # e)"

definition testRequest :: CallMethodRequest where
  "testRequest = \<lparr>objectId = itemsId, methodId = NodeId_numeric 1 12345, inputArguments = []\<rparr>"

text \<open>Calls of the method with one input and with two.\<close>

definition oneInput :: CallMethodRequest where
  "oneInput =
     \<lparr>objectId = itemsId, methodId = NodeId_numeric 1 12345,
      inputArguments = [variantInt32 [42, 0, 0, 0]]\<rparr>"

definition twoInputs :: CallMethodRequest where
  "twoInputs =
     \<lparr>objectId = itemsId, methodId = NodeId_numeric 1 12345,
      inputArguments = [variantInt32 [42, 0, 0, 0], variantInt32 [1, 0, 0, 0]]\<rparr>"

definition emptyCallResult :: CallMethodResult where
  "emptyCallResult = \<lparr>statusCode = UA_STATUSCODE_GOOD, outputArguments = []\<rparr>"

section \<open>Properties\<close>

lemmas data_defs =
  serverOf_def itemsId_def countId_def variantInt32_def store0_def store1_def
  Objects_def Organizes_def folderNode_def QualifiedName_new_def NodeId_string_def
  c_str_def Variant_null_def

lemmas status_defs =
  UA_STATUSCODE_GOOD_def UA_STATUSCODE_BADNODEIDUNKNOWN_def
  UA_STATUSCODE_BADATTRIBUTEIDINVALID_def

lemmas lock_defs = with_WriteLock_def WriteLock_def unlock_def lastOK_def

subsection \<open>Node context\<close>

text \<open>
  Claim C10. \<open>getNodeContext(n, c)\<close> leaves the caller's context pointer \<open>c\<close> as it
  was: whatever the engine writes goes to the local copy \<open>p\<close>, so after the call,
  successful or not, on a null engine or not, \<open>c\<close> holds the value it held before.
\<close>

theorem getNodeContext_frame:
  "fst (snd (getNodeContext UA_Server_getNodeContext s n c)) = c"
  by (simp add: getNodeContext_def Let_def split: option.split prod.split)

text \<open>
  At a concrete call: the engine finds the context \<open>TestContext\<close> and reports
  success, and the caller's pointer is still null.
\<close>

theorem getNodeContext_frame_witness:
  "fst (snd (getNodeContext (\<lambda>e n p. (UA_STATUSCODE_GOOD, Some ''TestContext''))
              (serverOf store1) countId None)) = None
   \<and> fst (getNodeContext (\<lambda>e n p. (UA_STATUSCODE_GOOD, Some ''TestContext''))
              (serverOf store1) countId None)"
  using getNodeContext_frame
    [of "\<lambda>e n p. (UA_STATUSCODE_GOOD, Some ''TestContext'')" "serverOf store1" countId None]
  by (simp add: getNodeContext_def serverOf_def lastOK_def)

subsection \<open>Deleting a node\<close>

text \<open>
  Claim C1 asks that \<open>deleteNode\<close> return true exactly when the deletion status is
  good, and false for an absent node id. The code returns
  \<open>_lastError != UA_STATUSCODE_GOOD\<close>. Deleting the present node \<open>Count\<close> succeeds
  in the store (status good) and the call returns false; deleting it from a store that
  does not hold it fails with \<open>BadNodeIdUnknown\<close> and the call returns true.
\<close>

theorem deleteNode_reports_inverted:
  "map_option fst (deleteNode store_deleteNode (serverOf store1) countId True) = Some False
   \<and> map_option (lastError \<circ> snd) (deleteNode store_deleteNode (serverOf store1) countId True)
       = Some UA_STATUSCODE_GOOD
   \<and> map_option fst (deleteNode store_deleteNode (serverOf store0) countId True) = Some True
   \<and> map_option (lastError \<circ> snd) (deleteNode store_deleteNode (serverOf store0) countId True)
       = Some UA_STATUSCODE_BADNODEIDUNKNOWN"
  by (simp add: deleteNode_def store_deleteNode_def lock_defs data_defs status_defs)

subsection \<open>Writing an attribute\<close>

text \<open>
  Claim C3 asks that \<open>writeAttribute\<close> fail for an absent node id and report success
  exactly when the write status is good. The code stores the outcome of the
  comparison with \<open>UA_STATUSCODE_GOOD\<close> in \<open>_lastError\<close> and then returns
  \<open>lastOK()\<close>: a good write leaves \<open>_lastError = 1\<close> and returns false, a failed one
  leaves \<open>_lastError = 0\<close> and returns true. Writing the value of the present variable
  \<open>Count\<close> is good in the store and reported false; writing to the absent id is
  \<open>BadNodeIdUnknown\<close> in the store and reported true.
\<close>

theorem writeAttribute_reports_inverted:
  "map_option fst (writeAttribute store_write (serverOf store1) countId
       UA_ATTRIBUTEID_VALUE UA_TYPES_VARIANT (variantInt32 [42, 0, 0, 0])) = Some False
   \<and> fst (store_write store1 countId UA_ATTRIBUTEID_VALUE UA_TYPES_VARIANT
           (variantInt32 [42, 0, 0, 0])) = UA_STATUSCODE_GOOD
   \<and> map_option fst (writeAttribute store_write (serverOf store0) countId
       UA_ATTRIBUTEID_VALUE UA_TYPES_VARIANT (variantInt32 [42, 0, 0, 0])) = Some True
   \<and> fst (store_write store0 countId UA_ATTRIBUTEID_VALUE UA_TYPES_VARIANT
           (variantInt32 [42, 0, 0, 0])) = UA_STATUSCODE_BADNODEIDUNKNOWN"
  by (simp add: writeAttribute_def store_write_def modify_def lock_defs data_defs status_defs)

text \<open>
  The flags for any engine: on a non-null engine with the lock free, \<open>deleteNode\<close>
  and \<open>writeAttribute\<close> return true exactly when the engine's status is not good,
  whereas \<open>readAttribute\<close> returns true exactly when it is good (so it fails for a
  node id the engine does not know).
\<close>

lemma deleteNode_flag:
  assumes "server s = Some e" and "mutex s = Unlocked"
    and "UA_Server_deleteNode e n b = (st, e')"
  shows "map_option fst (deleteNode UA_Server_deleteNode s n b) = Some (st \<noteq> UA_STATUSCODE_GOOD)"
  using assms by (simp add: deleteNode_def lock_defs)

lemma writeAttribute_flag:
  assumes "server s = Some e" and "mutex s = Unlocked"
    and "UA_Server_write e n a t x = (st, e')"
  shows "map_option fst (writeAttribute UA_Server_write s n a t x) = Some (st \<noteq> UA_STATUSCODE_GOOD)"
  using assms by (simp add: writeAttribute_def lock_defs UA_STATUSCODE_GOOD_def)

lemma readAttribute_flag:
  assumes "server s = Some e" and "mutex s = Unlocked"
    and "UA_Server_read e n a v = (st, v', e')"
  shows "map_option fst (readAttribute UA_Server_read s n a v) = Some (st = UA_STATUSCODE_GOOD, v')"
  using assms by (simp add: readAttribute_def lock_defs)

text \<open>
  \<open>writeValue\<close> and \<open>addObjectTypeNode\<close> take no lock: they run whatever the state
  of the mutex and leave it as it is.
\<close>

lemma writeValue_ignores_lock:
  "mutex (snd (writeValue UA_Server_write s n v)) = mutex s
   \<and> fst (writeValue UA_Server_write (s\<lparr>mutex := WriteLocked\<rparr>) n v)
       = fst (writeValue UA_Server_write s n v)"
  by (simp add: writeValue_def Let_def split: option.split prod.split)

lemma addObjectTypeNode_ignores_lock:
  "mutex (snd (addObjectTypeNode UA_Server_addObjectTypeNode s rid p rt qn at out ctx)) = mutex s
   \<and> fst (addObjectTypeNode UA_Server_addObjectTypeNode (s\<lparr>mutex := WriteLocked\<rparr>) rid p rt qn at out ctx)
       = fst (addObjectTypeNode UA_Server_addObjectTypeNode s rid p rt qn at out ctx)"
  by (simp add: addObjectTypeNode_def lastOK_def Let_def split: option.split prod.split)

subsection \<open>Writing and reading back a value\<close>

lemma map_of_modify:
  "map_of (modify n f st) k = (if k = n then map_option f (map_of st n) else map_of st k)"
  by (induction st) (auto simp: modify_def)

lemma store_write_read:
  "store_write st n UA_ATTRIBUTEID_VALUE UA_TYPES_VARIANT v = (UA_STATUSCODE_GOOD, st')
   \<Longrightarrow> store_read st' n UA_ATTRIBUTEID_VALUE old = (UA_STATUSCODE_GOOD, v, st')"
  by (auto simp: store_write_def store_read_def map_of_modify status_defs
      split: option.splits if_splits)

text \<open>
  On the node store every variable node keeps what \<open>writeValue\<close> wrote.
\<close>

lemma writeValue_readValue_on_store:
  assumes "map_of st n = Some nd" and "nodeClass nd = Variable"
  shows "fst (writeValue store_write (serverOf st) n v)
     \<and> map_option fst (readValue store_read (snd (writeValue store_write (serverOf st) n v)) n old)
         = Some (True, v)"
  using assms
  by (simp add: writeValue_def readValue_def readAttribute_def store_write_def store_read_def
      map_of_modify serverOf_def lock_defs UA_STATUSCODE_GOOD_def)

text \<open>
  Claim C4. A successful \<open>writeValue(n, v)\<close> followed by \<open>readValue(n, out)\<close> returns
  true and the Variant \<open>v\<close> itself: same type tag, same dimensions, same payload. The
  store is the engine's, so the law is relative to the engine: it is assumed that a
  Value the engine has accepted for \<open>n\<close> is the Value it reads back for \<open>n\<close>. The
  wrapper adds nothing and loses nothing: \<open>writeValue\<close> reports the engine's own
  status (a write that access control denies is not good, hence not successful), and
  \<open>readValue\<close> reads the same attribute of the same node under the lock, which must
  be free for the read to start.
\<close>

theorem writeValue_readValue_roundtrip:
  assumes engine:
      "\<And>e e' old. UA_Server_write e n UA_ATTRIBUTEID_VALUE UA_TYPES_VARIANT v = (UA_STATUSCODE_GOOD, e')
         \<Longrightarrow> \<exists>e''. UA_Server_read e' n UA_ATTRIBUTEID_VALUE old = (UA_STATUSCODE_GOOD, v, e'')"
    and free: "mutex s = Unlocked"
    and written: "writeValue UA_Server_write s n v = (True, s')"
  shows "\<exists>s''. readValue UA_Server_read s' n outValue = Some ((True, v), s'')"
proof -
  from written obtain e where e: "server s = Some e"
    by (cases "server s") (auto simp: writeValue_def)
  obtain st e' where w: "UA_Server_write e n UA_ATTRIBUTEID_VALUE UA_TYPES_VARIANT v = (st, e')"
    by (cases "UA_Server_write e n UA_ATTRIBUTEID_VALUE UA_TYPES_VARIANT v")
  from written e w have st: "st = UA_STATUSCODE_GOOD"
    and s': "s' = s\<lparr>server := Some e', lastError := st\<rparr>"
    by (auto simp: writeValue_def)
  from engine [of e e' outValue] w st obtain e'' where
    r: "UA_Server_read e' n UA_ATTRIBUTEID_VALUE outValue = (UA_STATUSCODE_GOOD, v, e'')"
    by auto
  show ?thesis
    using free r by (simp add: s' readValue_def readAttribute_def lock_defs)
qed

text \<open>
  The scenario of the spec with the node store as the engine: \<open>Count\<close> holds 1,
  \<open>writeValue(Count, Variant(42))\<close> succeeds, and \<open>readValue(Count)\<close> gives
  \<open>Variant(42)\<close>.
\<close>

theorem writeValue_readValue_roundtrip_witness:
  "fst (writeValue store_write (serverOf store1) countId (variantInt32 [42, 0, 0, 0]))
   \<and> map_option fst
        (readValue store_read
           (snd (writeValue store_write (serverOf store1) countId (variantInt32 [42, 0, 0, 0])))
           countId Variant_null)
      = Some (True, variantInt32 [42, 0, 0, 0])"
proof -
  let ?v = "variantInt32 [42, 0, 0, 0]"
  let ?w = "writeValue store_write (serverOf store1) countId ?v"
  have ok: "fst ?w"
    by (simp add: writeValue_def store_write_def data_defs status_defs)
  then have written: "?w = (True, snd ?w)"
    by (cases ?w) simp
  have free: "mutex (serverOf store1) = Unlocked"
    by (simp add: serverOf_def)
  have "\<exists>s''. readValue store_read (snd ?w) countId Variant_null = Some ((True, ?v), s'')"
  proof (rule writeValue_readValue_roundtrip
      [where UA_Server_write = store_write and s = "serverOf store1"])
    fix e e' old
    assume "store_write e countId UA_ATTRIBUTEID_VALUE UA_TYPES_VARIANT ?v = (UA_STATUSCODE_GOOD, e')"
    then show "\<exists>e''. store_read e' countId UA_ATTRIBUTEID_VALUE old = (UA_STATUSCODE_GOOD, ?v, e'')"
      using store_write_read by blast
  next
    show "mutex (serverOf store1) = Unlocked" by (rule free)
  next
    show "?w = (True, snd ?w)" by (rule written)
  qed
  then obtain s'' where
    "readValue store_read (snd ?w) countId Variant_null = Some ((True, ?v), s'')" ..
  with ok show ?thesis by simp
qed

subsection \<open>The lock\<close>

text \<open>
  Claim C2 says that the store lock is not held while a method handler runs, so that a
  handler may re-enter the store without deadlock. In \<open>call\<close> the engine's
  \<open>UA_Server_call\<close>, and with it the handler, runs inside the scope of the
  \<open>WriteLock\<close>: the probing handler of the method \<open>Probe\<close> finds the mutex held; and
  the handler of \<open>ReadCount\<close>, which on its own reads the value 1 of \<open>Count\<close>, never
  returns when it is invoked through \<open>call\<close>, and neither does \<open>call\<close>.
\<close>

theorem call_holds_lock_during_handler:
  "ServerMethod_new ''Probe'' 0 0 probeHandler = Inr (probeMethod :: NodeStore ServerMethod)
   \<and> call (dispatch_call (Some probeMethod)) (serverOf store1) testRequest emptyCallResult
      = Some ((False, \<lparr>statusCode = UA_STATUSCODE_BADINTERNALERROR, outputArguments = []\<rparr>),
              serverOf store1)
   \<and> ServerMethod_new ''ReadCount'' 0 1 reentrantHandler = Inr reentrantMethod
   \<and> reentrantHandler (serverOf store1) itemsId [] [Variant_null]
      = Some (UA_STATUSCODE_GOOD, [variantInt32 [1, 0, 0, 0]], serverOf store1)
   \<and> call (dispatch_call (Some reentrantMethod)) (serverOf store1) testRequest emptyCallResult
      = None"
proof -
  have "ServerMethod_new ''Probe'' 0 0 probeHandler = Inr (probeMethod :: NodeStore ServerMethod)"
    by (simp add: ServerMethod_new_def int_add_def probeMethod_def)
  moreover
  have "call (dispatch_call (Some probeMethod)) (serverOf store1) testRequest emptyCallResult
      = Some ((False, \<lparr>statusCode = UA_STATUSCODE_BADINTERNALERROR, outputArguments = []\<rparr>),
              serverOf store1)"
    by (simp add: probeMethod_def call_def dispatch_call_def methodCallback_def probeHandler_def
        inputArgumentsSize_def outputArgumentsSize_def testRequest_def lock_defs serverOf_def
        status_defs UA_STATUSCODE_BADINTERNALERROR_def)
  moreover
  have "ServerMethod_new ''ReadCount'' 0 1 reentrantHandler = Inr reentrantMethod"
    by (simp add: ServerMethod_new_def int_add_def reentrantMethod_def numeral_2_eq_2)
  moreover
  have "reentrantHandler (serverOf store1) itemsId [] [Variant_null]
      = Some (UA_STATUSCODE_GOOD, [variantInt32 [1, 0, 0, 0]], serverOf store1)"
    by (simp add: reentrantHandler_def readValue_def readAttribute_def store_read_def
        lock_defs data_defs status_defs UA_STATUSCODE_BADINTERNALERROR_def)
  moreover
  have "call (dispatch_call (Some reentrantMethod)) (serverOf store1) testRequest emptyCallResult
      = None"
    by (simp add: reentrantMethod_def call_def dispatch_call_def methodCallback_def
        reentrantHandler_def inputArgumentsSize_def outputArgumentsSize_def readValue_def
        readAttribute_def testRequest_def lock_defs serverOf_def)
  ultimately show ?thesis by simp
qed

text \<open>
  Claim C2, amended. On a non-null engine each of \<open>readAttribute\<close>,
  \<open>writeAttribute\<close>, \<open>deleteNode\<close>, \<open>translateBrowsePathToNodeIds\<close>,
  \<open>addNamespace\<close>, \<open>addServerMethod\<close>, \<open>addObjectNode\<close> and \<open>call\<close> takes the
  exclusive lock for the duration of its engine call: started while the lock is held
  it does not return, started with the lock free it returns with the lock free. The
  lock is held across the handler invocation: \<open>call\<close> runs the engine's
  \<open>UA_Server_call\<close> on the server with the mutex held and releases it when that
  returns.
\<close>

theorem lock_discipline:
  assumes "server s = Some e"
  shows "(mutex s = WriteLocked \<longrightarrow>
            readAttribute R s n a v = None
          \<and> writeAttribute W s n a t x = None
          \<and> deleteNode D s n b = None
          \<and> translateBrowsePathToNodeIds T s bp res = None
          \<and> addNamespace A s nm = None
          \<and> addServerMethod M s m bn p nid nn ns = None
          \<and> addObjectNode ON s rid p rt qn td at out ctx = None
          \<and> call C s req ret = None)
       \<and> (mutex s = Unlocked \<longrightarrow>
            map_option (mutex \<circ> snd) (readAttribute R s n a v) = Some Unlocked
          \<and> map_option (mutex \<circ> snd) (writeAttribute W s n a t x) = Some Unlocked
          \<and> map_option (mutex \<circ> snd) (deleteNode D s n b) = Some Unlocked
          \<and> map_option (mutex \<circ> snd) (translateBrowsePathToNodeIds T s bp res) = Some Unlocked
          \<and> map_option (mutex \<circ> snd) (addNamespace A s nm) = Some Unlocked
          \<and> map_option (mutex \<circ> snd) (addServerMethod M s m bn p nid nn ns) = Some Unlocked
          \<and> map_option (mutex \<circ> snd) (addObjectNode ON s rid p rt qn td at out ctx) = Some Unlocked
          \<and> call C s req ret =
              (case C (s\<lparr>mutex := WriteLocked\<rparr>) req of
                 None \<Rightarrow> None
               | Some (r, s') \<Rightarrow>
                   Some ((statusCode r = UA_STATUSCODE_GOOD, r), s'\<lparr>mutex := Unlocked\<rparr>)))"
  using assms
  by (simp add: readAttribute_def writeAttribute_def deleteNode_def
      translateBrowsePathToNodeIds_def addNamespace_def addServerMethod_def addObjectNode_def
      call_def lock_defs Let_def split: prod.split option.split)

text \<open>
  On the scenario store: with the lock free \<open>deleteNode\<close> and \<open>call\<close> return and
  leave it free, and the handler of \<open>call\<close> ran with the lock held; with the lock held
  \<open>readAttribute\<close> and \<open>call\<close> do not return.
\<close>

theorem lock_discipline_witness:
  "map_option (mutex \<circ> snd) (deleteNode store_deleteNode (serverOf store1) countId True)
     = Some Unlocked
   \<and> call (dispatch_call (Some probeMethod)) (serverOf store1) testRequest emptyCallResult
     = Some ((False, \<lparr>statusCode = UA_STATUSCODE_BADINTERNALERROR, outputArguments = []\<rparr>),
             serverOf store1)
   \<and> readAttribute store_read ((serverOf store1)\<lparr>mutex := WriteLocked\<rparr>) countId
        UA_ATTRIBUTEID_VALUE Variant_null = None
   \<and> call (dispatch_call (Some probeMethod)) ((serverOf store1)\<lparr>mutex := WriteLocked\<rparr>)
        testRequest emptyCallResult = None"
proof -
  have free: "server (serverOf store1) = Some store1"
    and held: "server ((serverOf store1)\<lparr>mutex := WriteLocked\<rparr>) = Some store1"
    by (simp_all add: serverOf_def)
  have probe: "dispatch_call (Some probeMethod) ((serverOf store1)\<lparr>mutex := WriteLocked\<rparr>) testRequest
      = Some (\<lparr>statusCode = UA_STATUSCODE_BADINTERNALERROR, outputArguments = []\<rparr>,
              (serverOf store1)\<lparr>mutex := WriteLocked\<rparr>)"
    by (simp add: dispatch_call_def methodCallback_def probeMethod_def probeHandler_def
        inputArgumentsSize_def outputArgumentsSize_def testRequest_def)
  have unl: "mutex (serverOf store1) = Unlocked"
    and hl: "mutex ((serverOf store1)\<lparr>mutex := WriteLocked\<rparr>) = WriteLocked"
    by (simp_all add: serverOf_def)
  note when_free = lock_discipline [OF free, THEN conjunct2, THEN mp, OF unl]
  note when_held = lock_discipline [OF held, THEN conjunct1, THEN mp, OF hl]
  note c7 = conjunct2 [THEN conjunct2, THEN conjunct2, THEN conjunct2, THEN conjunct2,
      THEN conjunct2, THEN conjunct2]
  have "map_option (mutex \<circ> snd) (deleteNode store_deleteNode (serverOf store1) countId True)
      = Some Unlocked"
    by (rule when_free [THEN conjunct2, THEN conjunct2, THEN conjunct1])
  moreover
  have "call (dispatch_call (Some probeMethod)) (serverOf store1) testRequest emptyCallResult
      = Some ((False, \<lparr>statusCode = UA_STATUSCODE_BADINTERNALERROR, outputArguments = []\<rparr>),
              serverOf store1)"
    by (simp add: when_free [THEN c7] probe)
      (simp add: serverOf_def status_defs UA_STATUSCODE_BADINTERNALERROR_def)
  moreover
  have "readAttribute store_read ((serverOf store1)\<lparr>mutex := WriteLocked\<rparr>) countId
        UA_ATTRIBUTEID_VALUE Variant_null = None"
    by (rule when_held [THEN conjunct1])
  moreover
  have "call (dispatch_call (Some probeMethod)) ((serverOf store1)\<lparr>mutex := WriteLocked\<rparr>)
        testRequest emptyCallResult = None"
    by (rule when_held [THEN c7])
  ultimately show ?thesis by simp
qed

subsection \<open>Method dispatch\<close>

lemma int_add_small:
  "- (2 ^ 31) \<le> a + b \<Longrightarrow> a + b < 2 ^ 31 \<Longrightarrow> int_add a b = a + b"
  by (simp add: int_add_def)

lemma size_minus_one:
  "0 \<le> k \<Longrightarrow> (of_nat (nat (k + 1)) :: 64 word) - 1 = word_of_int k"
  by (simp add: of_nat_nat)

lemma unat_arity:
  "0 \<le> k \<Longrightarrow> k < 2 ^ 31 \<Longrightarrow> unat (word_of_int k :: 64 word) = nat k"
  by (simp add: unat_eq_nat_uint uint_word_of_int_eq take_bit_int_eq_self)

text \<open>
  What the constructor and the sizes of \<open>addServerMethod\<close> make of the arities: a
  method that was constructed from arities within \<open>int\<close>, none negative, is registered
  with exactly these arities, and its callback is the handler.
\<close>

lemma ServerMethod_new_arities:
  assumes new: "ServerMethod_new n nInputs nOutputs handler = Inr m"
    and "0 \<le> nInputs" "nInputs < 2 ^ 31" "0 \<le> nOutputs" "nOutputs < 2 ^ 31"
  shows "unat (inputArgumentsSize m) = nat nInputs"
    and "unat (outputArgumentsSize m) = nat nOutputs"
    and "callback m = handler"
    and "inputArgumentsSize m = word_of_int nInputs"
    and "outputArgumentsSize m = word_of_int nOutputs"
proof -
  have "nInputs \<noteq> 2 ^ 31 - 1"
    using new by (auto simp add: ServerMethod_new_def int_add_def)
  with assms have i: "int_add nInputs 1 = nInputs + 1"
    by (simp add: int_add_small)
  have "nOutputs \<noteq> 2 ^ 31 - 1"
    using new by (auto simp add: ServerMethod_new_def int_add_def)
  with assms have out: "int_add nOutputs 1 = nOutputs + 1"
    by (simp add: int_add_small)
  have m: "m = \<lparr>contextName = n,
                 inArgs = replicate (nat (nInputs + 1)) Argument_default,
                 outArgs = replicate (nat (nOutputs + 1)) Argument_default,
                 callback = handler\<rparr>"
    using new assms(2,4) by (simp add: ServerMethod_new_def i out)
  show "unat (inputArgumentsSize m) = nat nInputs"
    using assms(2,3) by (simp add: inputArgumentsSize_def m size_minus_one unat_arity)
  show "unat (outputArgumentsSize m) = nat nOutputs"
    using assms(4,5) by (simp add: outputArgumentsSize_def m size_minus_one unat_arity)
  show "callback m = handler"
    by (simp add: m)
  show "inputArgumentsSize m = word_of_int nInputs"
    using assms(2) by (simp add: inputArgumentsSize_def m size_minus_one)
  show "outputArgumentsSize m = word_of_int nOutputs"
    using assms(4) by (simp add: outputArgumentsSize_def m size_minus_one)
qed

text \<open>
  \<open>addServerMethod\<close> hands the engine the sizes \<open>in().size() - 1\<close> and
  \<open>out().size() - 1\<close>: an engine that records what it is given has recorded the
  arities of the constructor.
\<close>

lemma addServerMethod_registers_arities:
  assumes "ServerMethod_new n nInputs nOutputs handler = Inr m"
    and "0 \<le> nInputs" "nInputs < 2 ^ 31" "0 \<le> nOutputs" "nOutputs < 2 ^ 31"
  shows "map_option (server \<circ> snd)
           (addServerMethod recordArity (serverOf []) m bname parent nodeId newNode nsIndex)
         = Some (Some [(word_of_int nInputs, word_of_int nOutputs)])"
  by (simp add: addServerMethod_def recordArity_def serverOf_def lock_defs Let_def
      ServerMethod_new_arities(4,5) [OF assms])

text \<open>
  \<open>methodCallback\<close> compares no counts: for a registered server and a method context
  it runs the handler on the inputs and the output buffer it is given.
\<close>

lemma methodCallback_runs_handler:
  "methodCallback (Some s) (Some m) objId input output
     = (case callback m s objId input output of
          None \<Rightarrow> None
        | Some (ret, output', s') \<Rightarrow> Some (ret, output', Some s'))"
  by (simp add: methodCallback_def)

text \<open>
  Claim C5. A method is constructed with the arities \<open>nInputs\<close> and \<open>nOutputs\<close>
  (\<open>int\<close> values, none negative) and registered; it is invoked through \<open>call\<close> on a
  server with an engine and the lock free. When the number of inputs of the request
  differs from \<open>nInputs\<close>, the call fails with \<open>ArgumentCountMismatch\<close> and no outputs,
  whatever the handler is, also one that would not return, and leaves the server as it
  was: the handler is not invoked. When the number of inputs is \<open>nInputs\<close>, the handler
  runs on the inputs, with an output buffer of \<open>nOutputs\<close> entries; if it comes back
  with a number of outputs other than \<open>nOutputs\<close>, the call fails with
  \<open>ArgumentCountMismatch\<close> as well.
\<close>

theorem call_checks_argument_counts:
  assumes new: "ServerMethod_new n nInputs nOutputs handler = Inr m"
    and range: "0 \<le> nInputs" "nInputs < 2 ^ 31" "0 \<le> nOutputs" "nOutputs < 2 ^ 31"
    and live: "server s = Some e"
    and free: "mutex s = Unlocked"
  shows "(int (length (inputArguments request)) \<noteq> nInputs \<longrightarrow>
            call (dispatch_call (Some m)) s request ret
              = Some ((False, \<lparr>statusCode = ArgumentCountMismatch, outputArguments = []\<rparr>), s))
       \<and> (int (length (inputArguments request)) = nInputs \<longrightarrow>
            (\<forall>st outs s'.
               handler (s\<lparr>mutex := WriteLocked\<rparr>) (objectId request) (inputArguments request)
                  (replicate (nat nOutputs) Variant_null) = Some (st, outs, s')
               \<longrightarrow> int (length outs) \<noteq> nOutputs
               \<longrightarrow> call (dispatch_call (Some m)) s request ret
                     = Some ((False,
                              \<lparr>statusCode = ArgumentCountMismatch, outputArguments = []\<rparr>),
                             s'\<lparr>mutex := Unlocked\<rparr>)))"
proof -
  note ar = ServerMethod_new_arities(1-3) [OF new range]
  have restored: "s\<lparr>mutex := Unlocked\<rparr> = s"
    using free by simp
  have bad: "(ArgumentCountMismatch = UA_STATUSCODE_GOOD) = False"
    by (simp add: ArgumentCountMismatch_def UA_STATUSCODE_GOOD_def)
  have differs: "call (dispatch_call (Some m)) s request ret
      = Some ((False, \<lparr>statusCode = ArgumentCountMismatch, outputArguments = []\<rparr>), s)"
    if "int (length (inputArguments request)) \<noteq> nInputs"
  proof -
    from that range(1) have "length (inputArguments request) \<noteq> nat nInputs"
      by auto
    then show ?thesis
      using live free
      by (simp add: call_def dispatch_call_def lock_defs ar bad restored Let_def)
  qed
  have outputs: "call (dispatch_call (Some m)) s request ret
      = Some ((False, \<lparr>statusCode = ArgumentCountMismatch, outputArguments = []\<rparr>),
              s'\<lparr>mutex := Unlocked\<rparr>)"
    if "int (length (inputArguments request)) = nInputs"
      and "handler (s\<lparr>mutex := WriteLocked\<rparr>) (objectId request) (inputArguments request)
             (replicate (nat nOutputs) Variant_null) = Some (st, outs, s')"
      and "int (length outs) \<noteq> nOutputs"
    for st outs s'
  proof -
    from that(1) have len: "length (inputArguments request) = nat nInputs"
      by auto
    from that(3) range(3) have "length outs \<noteq> nat nOutputs"
      by auto
    then show ?thesis
      using live free that(2)
      by (simp add: call_def dispatch_call_def methodCallback_runs_handler lock_defs ar bad len
          Let_def)
  qed
  from differs outputs show ?thesis
    by blast
qed

text \<open>
  The scenario: \<open>TestMethod\<close> is constructed with 2 inputs and 1 output. Called with
  one input it fails with \<open>ArgumentCountMismatch\<close>, also with a handler that would
  never return. Called with two inputs and a handler that answers with two outputs it
  fails with \<open>ArgumentCountMismatch\<close>; with a handler that answers with one output it
  succeeds, and the output is the number of inputs.
\<close>

theorem call_checks_argument_counts_witness:
  "ServerMethod_new ''TestMethod'' 2 1 stuckHandler
      = Inr (testMethod stuckHandler :: NodeStore ServerMethod)
   \<and> call (dispatch_call (Some (testMethod stuckHandler))) (serverOf store1) oneInput
        emptyCallResult
      = Some ((False, \<lparr>statusCode = ArgumentCountMismatch, outputArguments = []\<rparr>),
              serverOf store1)
   \<and> call (dispatch_call (Some (testMethod stuckHandler))) (serverOf store1) twoInputs
        emptyCallResult
      = None
   \<and> ServerMethod_new ''TestMethod'' 2 1 chattyHandler
      = Inr (testMethod chattyHandler :: NodeStore ServerMethod)
   \<and> call (dispatch_call (Some (testMethod chattyHandler))) (serverOf store1) twoInputs
        emptyCallResult
      = Some ((False, \<lparr>statusCode = ArgumentCountMismatch, outputArguments = []\<rparr>),
              serverOf store1)
   \<and> call (dispatch_call (Some (testMethod countingHandler))) (serverOf store1) twoInputs
        emptyCallResult
      = Some ((True, \<lparr>statusCode = UA_STATUSCODE_GOOD,
                       outputArguments = [variantInt32 [2, 0, 0, 0]]\<rparr>),
              serverOf store1)"
proof -
  have live: "server (serverOf store1) = Some store1"
    and free: "mutex (serverOf store1) = Unlocked"
    by (simp_all add: serverOf_def)
  have stuck: "ServerMethod_new ''TestMethod'' 2 1 stuckHandler
      = Inr (testMethod stuckHandler :: NodeStore ServerMethod)"
    by (simp add: ServerMethod_new_def int_add_def testMethod_def numeral_3_eq_3 numeral_2_eq_2)
  have chatty: "ServerMethod_new ''TestMethod'' 2 1 chattyHandler
      = Inr (testMethod chattyHandler :: NodeStore ServerMethod)"
    by (simp add: ServerMethod_new_def int_add_def testMethod_def numeral_3_eq_3 numeral_2_eq_2)
  have one: "int (length (inputArguments oneInput)) \<noteq> 2"
    and two: "int (length (inputArguments twoInputs)) = 2"
    by (simp_all add: oneInput_def twoInputs_def)
  have "call (dispatch_call (Some (testMethod stuckHandler))) (serverOf store1) oneInput
        emptyCallResult
      = Some ((False, \<lparr>statusCode = ArgumentCountMismatch, outputArguments = []\<rparr>),
              serverOf store1)"
    by (rule call_checks_argument_counts [OF stuck _ _ _ _ live free, THEN conjunct1, THEN mp,
          OF _ _ _ _ one]) simp_all
  moreover
  have "call (dispatch_call (Some (testMethod stuckHandler))) (serverOf store1) twoInputs
        emptyCallResult = None"
    by (simp add: call_def dispatch_call_def methodCallback_def testMethod_def stuckHandler_def
        inputArgumentsSize_def outputArgumentsSize_def twoInputs_def lock_defs serverOf_def)
  moreover
  have ran: "chattyHandler ((serverOf store1)\<lparr>mutex := WriteLocked\<rparr>) (objectId twoInputs)
         (inputArguments twoInputs) (replicate (nat 1) Variant_null)
       = Some (UA_STATUSCODE_GOOD,
               [variantInt32 [2, 0, 0, 0], variantInt32 [2, 0, 0, 0]],
               (serverOf store1)\<lparr>mutex := WriteLocked\<rparr>)"
    by (simp add: chattyHandler_def twoInputs_def)
  have "call (dispatch_call (Some (testMethod chattyHandler))) (serverOf store1) twoInputs
        emptyCallResult
      = Some ((False, \<lparr>statusCode = ArgumentCountMismatch, outputArguments = []\<rparr>),
              (serverOf store1)\<lparr>mutex := WriteLocked\<rparr>\<lparr>mutex := Unlocked\<rparr>)"
    by (rule call_checks_argument_counts [OF chatty _ _ _ _ live free, THEN conjunct2, THEN mp,
          OF _ _ _ _ two, THEN spec, THEN spec, THEN spec, THEN mp, OF _ _ _ _ ran, THEN mp]) simp_all
  then have "call (dispatch_call (Some (testMethod chattyHandler))) (serverOf store1) twoInputs
        emptyCallResult
      = Some ((False, \<lparr>statusCode = ArgumentCountMismatch, outputArguments = []\<rparr>),
              serverOf store1)"
    by (simp add: serverOf_def)
  moreover
  have "call (dispatch_call (Some (testMethod countingHandler))) (serverOf store1) twoInputs
        emptyCallResult
      = Some ((True, \<lparr>statusCode = UA_STATUSCODE_GOOD,
                       outputArguments = [variantInt32 [2, 0, 0, 0]]\<rparr>),
              serverOf store1)"
    by (simp add: call_def dispatch_call_def methodCallback_def testMethod_def
        countingHandler_def inputArgumentsSize_def outputArgumentsSize_def twoInputs_def
        lock_defs serverOf_def)
  ultimately show ?thesis
    using stuck chatty by simp
qed

subsection \<open>Translating a browse path\<close>

text \<open>
  Claim C6 says that a path with more than one candidate is answered with a no-match
  or ambiguous result. \<open>translateBrowsePathToNodeIds\<close> neither counts nor rejects
  candidates: \<open>dupStore\<close> has two children of \<open>Objects\<close> with the browse name
  \<open>Dup\<close>, and when the engine's answer for the path to them is good and lists both,
  the operation returns true and hands both targets back.
\<close>

theorem translateBrowsePath_ambiguous_succeeds:
  "children dupStore Objects = [dupA, dupB]
   \<and> hasBrowseName dupStore ''Dup'' dupA \<and> hasBrowseName dupStore ''Dup'' dupB
   \<and> translateBrowsePathToNodeIds (\<lambda>e p. (ambiguousAnswer, e)) (serverOf dupStore)
       (pathTo ''Dup'') emptyBrowsePathResult
     = Some ((True, \<lparr>resultStatusCode = UA_STATUSCODE_GOOD, targets = [dupA, dupB]\<rparr>),
             serverOf dupStore)"
  by (simp add: translateBrowsePathToNodeIds_def ambiguousAnswer_def lock_defs serverOf_def
      children_def hasBrowseName_def dupStore_def dupA_def dupB_def NodeId_numeric_def
      Objects_def folderNode_def QualifiedName_new_def)

text \<open>
  Claim C6, amended. On a non-null engine with the lock free,
  \<open>translateBrowsePathToNodeIds\<close> returns the engine's answer unchanged, with every
  target the engine found, be it one or several, and returns true exactly when the
  status code of that answer is good; an answer without a match is reported false.
\<close>

theorem translateBrowsePath_passes_engine_answer:
  assumes "server s = Some e" and "mutex s = Unlocked"
    and "UA_Server_translateBrowsePathToNodeIds e path = (r, e')"
  shows "translateBrowsePathToNodeIds UA_Server_translateBrowsePathToNodeIds s path result
     = Some ((resultStatusCode r = UA_STATUSCODE_GOOD, r), s\<lparr>server := Some e'\<rparr>)"
  using assms
  by (simp add: translateBrowsePathToNodeIds_def lock_defs)

text \<open>A unique match is reported true with its target, a missing one false.\<close>

theorem translateBrowsePath_passes_engine_answer_witness:
  "translateBrowsePathToNodeIds (\<lambda>e p. (uniqueAnswer, e)) (serverOf store1)
       (pathTo ''Items'') emptyBrowsePathResult
     = Some ((True, uniqueAnswer), serverOf store1)
   \<and> translateBrowsePathToNodeIds (\<lambda>e p. (noMatchAnswer, e)) (serverOf store1)
       (pathTo ''Missing'') emptyBrowsePathResult
     = Some ((False, noMatchAnswer), serverOf store1)"
  using translateBrowsePath_passes_engine_answer
      [of "serverOf store1" store1 "\<lambda>e p. (uniqueAnswer, e)" "pathTo ''Items''" uniqueAnswer
          store1 emptyBrowsePathResult]
    translateBrowsePath_passes_engine_answer
      [of "serverOf store1" store1 "\<lambda>e p. (noMatchAnswer, e)" "pathTo ''Missing''" noMatchAnswer
          store1 emptyBrowsePathResult]
  by (simp add: serverOf_def uniqueAnswer_def noMatchAnswer_def UA_STATUSCODE_GOOD_def
      UA_STATUSCODE_BADNOMATCH_def)

subsection \<open>A null engine\<close>

text \<open>
  Claim C8 says that no operation throws and that \<open>browseName\<close> on a null engine
  returns a failure status. \<open>browseName\<close> starts with
  \<open>if (!_server) throw std::runtime_error("Null server")\<close>: on the null server the
  exception leaves the call.
\<close>

theorem browseName_null_server_throws:
  "browseName store_readBrowseName (nullServer :: NodeStore Server) countId [] 0
     = Inl (runtime_error ''Null server'')"
  by (simp add: browseName_def nullServer_def)

text \<open>
  Claim C8, amended. On a null engine \<open>deleteNode\<close>, \<open>call\<close>, \<open>readAttribute\<close>,
  \<open>writeAttribute\<close>, \<open>writeValue\<close>, \<open>translateBrowsePathToNodeIds\<close>,
  \<open>getNodeContext\<close>, \<open>setNodeContext\<close>, \<open>addServerMethod\<close>, \<open>addObjectNode\<close> and
  \<open>addObjectTypeNode\<close> return false, and \<open>addNamespace\<close> returns 0, with the server
  object and the caller's out-parameters untouched; \<open>browseName\<close> throws
  \<open>runtime_error("Null server")\<close> on a null engine, and returns a flag on any other.
\<close>

theorem null_server_results:
  "(server s = None \<longrightarrow>
       deleteNode D s n b = Some (False, s)
     \<and> call C s req ret = Some ((False, ret), s)
     \<and> readAttribute R s n a v = Some ((False, v), s)
     \<and> writeAttribute W s n a t x = Some (False, s)
     \<and> writeValue W' s n val = (False, s)
     \<and> translateBrowsePathToNodeIds T s bp res = Some ((False, res), s)
     \<and> getNodeContext G s n c = (False, c, s)
     \<and> setNodeContext G' s n c' = (False, s)
     \<and> addNamespace A s nm = Some (0, s)
     \<and> addServerMethod M s m bn p nid nn ns = Some ((False, nn), s)
     \<and> addObjectNode ON s rid p rt qn td at out ctx = Some ((False, out), s)
     \<and> addObjectTypeNode OT s rid p rt qn at' out ctx' = ((False, out), s)
     \<and> browseName B s n str i = Inl (runtime_error ''Null server''))
   \<and> (server s \<noteq> None \<longrightarrow> (\<exists>r. browseName B s n str i = Inr r))"
  by (auto simp: deleteNode_def call_def readAttribute_def writeAttribute_def writeValue_def
      translateBrowsePathToNodeIds_def getNodeContext_def setNodeContext_def addNamespace_def
      addServerMethod_def addObjectNode_def addObjectTypeNode_def browseName_def Let_def
      split: prod.split)

text \<open>
  On the null server \<open>deleteNode\<close>, \<open>writeValue\<close> and \<open>addNamespace\<close> fail quietly
  and \<open>browseName\<close> throws; on the scenario store \<open>browseName(Count)\<close> returns the
  name and its namespace.
\<close>

theorem null_server_results_witness:
  "deleteNode store_deleteNode nullServer countId True = Some (False, nullServer)
   \<and> writeValue store_write nullServer countId (variantInt32 [42, 0, 0, 0]) = (False, nullServer)
   \<and> addNamespace (\<lambda>e nm. (2, e)) (nullServer :: NodeStore Server) ''urn:test'' = Some (0, nullServer)
   \<and> browseName store_readBrowseName (nullServer :: NodeStore Server) countId [] 0
        = Inl (runtime_error ''Null server'')
   \<and> browseName store_readBrowseName (serverOf store1) countId [] 0 = Inr (True, ''Count'', 1)"
proof -
  have null: "server (nullServer :: NodeStore Server) = None"
    by (simp add: nullServer_def)
  have live: "server (serverOf store1) \<noteq> None"
    by (simp add: serverOf_def)
  have name: "browseName store_readBrowseName (serverOf store1) countId [] 0 = Inr (True, ''Count'', 1)"
    by (simp add: browseName_def store_readBrowseName_def lastOK_def data_defs status_defs)
  note on_null = null_server_results [THEN conjunct1, THEN mp, OF null]
  note c4 = conjunct2 [THEN conjunct2, THEN conjunct2, THEN conjunct2]
  have "deleteNode store_deleteNode nullServer countId True = Some (False, nullServer)"
    by (rule on_null [THEN conjunct1])
  moreover
  have "writeValue store_write nullServer countId (variantInt32 [42, 0, 0, 0]) = (False, nullServer)"
    by (rule on_null [THEN c4, THEN conjunct1])
  moreover
  have "addNamespace (\<lambda>e nm. (2, e)) (nullServer :: NodeStore Server) ''urn:test''
      = Some (0, nullServer)"
    by (rule on_null [THEN c4, THEN c4, THEN conjunct1])
  moreover
  have "browseName store_readBrowseName (nullServer :: NodeStore Server) countId [] 0
      = Inl (runtime_error ''Null server'')"
    by (rule on_null [THEN c4, THEN c4, THEN c4])
  moreover
  from null_server_results [THEN conjunct2, THEN mp, OF live, of store_readBrowseName countId "[]" 0]
    name
  have "browseName store_readBrowseName (serverOf store1) countId [] 0 = Inr (True, ''Count'', 1)"
    by simp
  ultimately show ?thesis by simp
qed

subsection \<open>Access control defaults\<close>

text \<open>
  Claim C9 says that the default user access level permits reading variable values.
  \<open>getUserAccessLevel\<close> returns 0: the read bit is clear.
\<close>

theorem default_access_level_denies_read:
  "getUserAccessLevel () None () (Some countId) () AND UA_ACCESSLEVELMASK_READ = 0"
  by (simp add: getUserAccessLevel_def)

text \<open>
  Claim C9, amended. With no overrides installed the add-node decision is allow for
  every request, the delete-node decision is deny for every request, and the user
  access level granted for every node is 0: no bit of it is set, the read bit
  included.
\<close>

theorem default_access_control:
  "allowAddNode ac sessionId sessionContext item
   \<and> \<not> allowDeleteNode ac' sessionId' sessionContext' item'
   \<and> getUserAccessLevel ac'' sessionId'' sessionContext'' nodeId nodeCtx = 0
   \<and> getUserAccessLevel ac'' sessionId'' sessionContext'' nodeId nodeCtx
        AND UA_ACCESSLEVELMASK_READ = 0"
  by (simp add: allowAddNode_def allowDeleteNode_def getUserAccessLevel_def)

theorem default_access_control_witness:
  "allowAddNode () None () ()
   \<and> \<not> allowDeleteNode () (Some itemsId) () ()
   \<and> getUserAccessLevel () None () (Some countId) () = 0
   \<and> getUserAccessLevel () None () (Some countId) () AND UA_ACCESSLEVELMASK_READ = 0"
  using default_access_control
    [of "()" None "()" "()" "()" "Some itemsId" "()" "()" "()" None "()" "Some countId" "()"]
  by simp

subsection \<open>Creating a folder path\<close>

lemma find_append_split:
  "find P (xs @ ys) = (case find P xs of None \<Rightarrow> find P ys | Some x \<Rightarrow> Some x)"
  by (induction xs) auto

lemma key_mentioned: "map_of st k = Some nd \<Longrightarrow> k \<in> set (mentioned st)"
proof -
  assume "map_of st k = Some nd"
  then have "(k, nd) \<in> set st" by (rule map_of_SomeD)
  then have "k \<in> fst ` set st" by force
  then show ?thesis by (simp add: mentioned_def)
qed

lemma children_mentioned: "t \<in> set (children st q) \<Longrightarrow> t \<in> set (mentioned st)"
proof -
  assume t: "t \<in> set (children st q)"
  then obtain nd where nd: "map_of st q = Some nd"
    by (cases "map_of st q") (auto simp: children_def)
  with t obtain r where r: "r \<in> set (references nd)" "target r = t"
    by (auto simp: children_def)
  from nd have "(q, nd) \<in> set st" by (rule map_of_SomeD)
  with r have "t \<in> set (concat (map (\<lambda>(k, nd). map target (references nd)) st))"
    by force
  then show ?thesis by (simp add: mentioned_def)
qed

lemma not_mentioned_absent: "k \<notin> set (mentioned st) \<Longrightarrow> map_of st k = None"
  by (cases "map_of st k") (auto dest: key_mentioned)

text \<open>What a successful \<open>addFolder\<close> does to the store.\<close>

lemma addFolder_new:
  assumes "store_addFolder st p nm rid ns = Inr (new, st')"
  shows "new \<notin> set (mentioned st)"
  using assms
  by (auto simp: store_addFolder_def Let_def split: option.splits if_splits)

lemma addFolder_parent:
  assumes "store_addFolder st p nm rid ns = Inr (new, st')"
  shows "\<exists>pn. map_of st p = Some pn"
  using assms
  by (auto simp: store_addFolder_def Let_def split: option.splits if_splits)

lemma addFolder_store:
  assumes "store_addFolder st p nm rid ns = Inr (new, st')"
  shows "\<exists>qn. qnName qn = nm \<and>
     st' = modify p (\<lambda>x. x\<lparr>references := references x @
                [\<lparr>refType = Organizes, isForward = True, target = new\<rparr>]\<rparr>) st
           @ [(new, folderNode qn)]"
  using assms
  by (auto simp: store_addFolder_def Let_def QualifiedName_new_def split: option.splits if_splits
      intro!: exI [of _ "\<lparr>qnNamespaceIndex = w, qnName = nm\<rparr>" for w])

lemma addFolder_map_of:
  assumes add: "store_addFolder st p nm rid ns = Inr (new, st')"
  shows "\<exists>qn. qnName qn = nm \<and> map_of st' new = Some (folderNode qn)"
    and "k \<noteq> new \<Longrightarrow> map_of st' k =
          (if k = p then map_option (\<lambda>x. x\<lparr>references := references x @
                [\<lparr>refType = Organizes, isForward = True, target = new\<rparr>]\<rparr>) (map_of st p)
           else map_of st k)"
proof -
  from addFolder_new [OF add] have absent: "map_of st new = None"
    by (rule not_mentioned_absent)
  from addFolder_parent [OF add] absent have np: "new \<noteq> p" by auto
  from addFolder_store [OF add] obtain qn where qn: "qnName qn = nm"
    and st': "st' = modify p (\<lambda>x. x\<lparr>references := references x @
                [\<lparr>refType = Organizes, isForward = True, target = new\<rparr>]\<rparr>) st
           @ [(new, folderNode qn)]" by blast
  show "\<exists>qn. qnName qn = nm \<and> map_of st' new = Some (folderNode qn)"
    using qn absent np by (auto simp: st' map_of_append map_of_modify map_add_def)
  show "map_of st' k =
          (if k = p then map_option (\<lambda>x. x\<lparr>references := references x @
                [\<lparr>refType = Organizes, isForward = True, target = new\<rparr>]\<rparr>) (map_of st p)
           else map_of st k)" if "k \<noteq> new"
    using that by (auto simp: st' map_of_append map_of_modify map_add_def split: option.splits)
qed

lemma addFolder_hasBrowseName_old:
  assumes add: "store_addFolder st p nm rid ns = Inr (new, st')" and "t \<noteq> new"
  shows "hasBrowseName st' nm' t = hasBrowseName st nm' t"
  using addFolder_map_of(2) [OF add \<open>t \<noteq> new\<close>]
  by (cases "map_of st p") (auto simp: hasBrowseName_def split: option.splits)

lemma addFolder_hasBrowseName_new:
  assumes add: "store_addFolder st p nm rid ns = Inr (new, st')"
  shows "hasBrowseName st' nm new"
  using addFolder_map_of(1) [OF add]
  by (auto simp: hasBrowseName_def folderNode_def)

lemma addFolder_children:
  assumes add: "store_addFolder st p nm rid ns = Inr (new, st')" and "q \<noteq> new"
  shows "children st' q = children st q @ (if q = p then [new] else [])"
  using addFolder_map_of(2) [OF add \<open>q \<noteq> new\<close>] addFolder_parent [OF add]
  by (auto simp: children_def split: option.splits)

lemma getChild_parent_exists:
  assumes "getChild st q nm' = Some c"
  shows "\<exists>nd. map_of st q = Some nd"
  using assms by (cases "map_of st q") (auto simp: getChild_def children_def)

lemma addFolder_find_old:
  assumes add: "store_addFolder st p nm rid ns = Inr (new, st')"
  shows "find (hasBrowseName st' nm') (children st q) = find (hasBrowseName st nm') (children st q)"
proof (rule find_cong [OF refl])
  fix t assume "t \<in> set (children st q)"
  then have "t \<in> set (mentioned st)" by (rule children_mentioned)
  with addFolder_new [OF add] have "t \<noteq> new" by auto
  then show "hasBrowseName st' nm' t = hasBrowseName st nm' t"
    by (rule addFolder_hasBrowseName_old [OF add])
qed

text \<open>A child that resolves keeps resolving after a folder is added anywhere.\<close>

lemma addFolder_keeps_child:
  assumes add: "store_addFolder st p nm rid ns = Inr (new, st')"
    and child: "getChild st q nm' = Some c"
  shows "getChild st' q nm' = Some c"
proof -
  from getChild_parent_exists [OF child] addFolder_new [OF add]
  have "q \<noteq> new" by (auto dest: key_mentioned)
  from addFolder_children [OF add this] child addFolder_find_old [OF add, of nm' q]
  show ?thesis
    by (simp add: getChild_def find_append_split)
qed

text \<open>A folder added where no child had the name is the child that resolves next.\<close>

lemma addFolder_makes_child:
  assumes add: "store_addFolder st p nm rid ns = Inr (new, st')"
    and none: "getChild st p nm = None"
  shows "getChild st' p nm = Some new"
proof -
  from addFolder_parent [OF add] addFolder_new [OF add]
  have "p \<noteq> new" by (auto dest: key_mentioned)
  from addFolder_children [OF add this] none addFolder_find_old [OF add, of nm p]
    addFolder_hasBrowseName_new [OF add]
  show ?thesis
    by (simp add: getChild_def find_append_split)
qed

lemma createFolderPath_keeps_child:
  "getChild st q nm = Some c \<Longrightarrow>
   getChild (snd (createFolderPath st cur path ns)) q nm = Some c"
proof (induction path arbitrary: st cur)
  case Nil
  then show ?case by simp
next
  case (Cons seg rest)
  show ?case
  proof (cases "getChild st cur seg")
    case (Some d)
    with Cons show ?thesis by simp
  next
    case None
    show ?thesis
    proof (cases "store_addFolder st cur seg (NodeId (word_of_int ns) (UA_NODEIDTYPE_NUMERIC 0)) ns")
      case (Inl err)
      with None Cons.prems show ?thesis by simp
    next
      case (Inr res)
      obtain new st1 where res: "res = (new, st1)" by (cases res)
      from Inr res Cons.prems have "getChild st1 q nm = Some c"
        by (auto intro: addFolder_keeps_child)
      then have "getChild (snd (createFolderPath st1 new rest ns)) q nm = Some c"
        by (rule Cons.IH)
      with None Inr res show ?thesis by simp
    qed
  qed
qed

text \<open>
  Claim C7. \<open>createFolderPath\<close> is idempotent: for every store, start node, path and
  namespace index, a second call with the same arguments on the store the first call
  left gives the result of the first call (the same leaf, or the same error) and the
  same store, so it creates no node.
\<close>

theorem createFolderPath_idempotent:
  "createFolderPath (snd (createFolderPath st start path ns)) start path ns
     = createFolderPath st start path ns"
proof (induction path arbitrary: st start)
  case Nil
  show ?case by simp
next
  case (Cons seg rest)
  show ?case
  proof (cases "getChild st start seg")
    case (Some c)
    let ?st' = "snd (createFolderPath st c rest ns)"
    from Some have "getChild ?st' start seg = Some c"
      by (rule createFolderPath_keeps_child)
    then have "createFolderPath ?st' start (seg # rest) ns = createFolderPath ?st' c rest ns"
      by simp
    also have "\<dots> = createFolderPath st c rest ns" by (rule Cons.IH)
    finally show ?thesis using Some by simp
  next
    case None
    show ?thesis
    proof (cases "store_addFolder st start seg (NodeId (word_of_int ns) (UA_NODEIDTYPE_NUMERIC 0)) ns")
      case (Inl err)
      with None show ?thesis by simp
    next
      case (Inr res)
      obtain new st1 where res: "res = (new, st1)" by (cases res)
      let ?st' = "snd (createFolderPath st1 new rest ns)"
      from Inr res None have "getChild st1 start seg = Some new"
        by (auto intro: addFolder_makes_child)
      then have "getChild ?st' start seg = Some new"
        by (rule createFolderPath_keeps_child)
      then have "createFolderPath ?st' start (seg # rest) ns = createFolderPath ?st' new rest ns"
        by simp
      also have "\<dots> = createFolderPath st1 new rest ns" by (rule Cons.IH)
      finally show ?thesis using None Inr res by simp
    qed
  qed
qed

lemma createFolderPath_abc:
  "createFolderPath store0 Objects [''A'', ''B'', ''C''] 1 = (Inr (NodeId_numeric 1 88), abcStore)"
  by (simp add: store0_def abcStore_def getChild_def children_def hasBrowseName_def
      store_addFolder_def mentioned_def freshId_def numericOf_def modify_def folderNode_def
      QualifiedName_new_def NodeId_numeric_def Objects_def Organizes_def nameSpaceIndex_def
      Let_def)

text \<open>
  The path A/B/C under \<open>Objects\<close>: both calls give the same leaf, and the store holds
  one node named A, one named B and one named C.
\<close>

theorem createFolderPath_idempotent_witness:
  "createFolderPath store0 Objects [''A'', ''B'', ''C''] 1 = (Inr (NodeId_numeric 1 88), abcStore)
   \<and> createFolderPath abcStore Objects [''A'', ''B'', ''C''] 1 = (Inr (NodeId_numeric 1 88), abcStore)
   \<and> countNamed abcStore ''A'' = 1 \<and> countNamed abcStore ''B'' = 1 \<and> countNamed abcStore ''C'' = 1"
proof -
  have counts: "countNamed abcStore ''A'' = 1 \<and> countNamed abcStore ''B'' = 1
      \<and> countNamed abcStore ''C'' = 1"
    by (simp add: countNamed_def abcStore_def folderNode_def QualifiedName_new_def)
  have first: "createFolderPath store0 Objects [''A'', ''B'', ''C''] 1
      = (Inr (NodeId_numeric 1 88), abcStore)"
    by (rule createFolderPath_abc)
  from createFolderPath_idempotent [of store0 Objects "[''A'', ''B'', ''C'']" 1]
  have second: "createFolderPath abcStore Objects [''A'', ''B'', ''C''] 1
      = (Inr (NodeId_numeric 1 88), abcStore)"
    unfolding first snd_conv .
  from first second counts show ?thesis
    by (simp only: simp_thms)
qed

end
